theory Spec2Isabelle
  imports Main
begin

section \<open>Data model (backend/server.js, Mongoose schemas)\<close>

text \<open>
  Object ids are kept in their string form (what \<open>String(doc._id)\<close> yields), so the
  comparisons the handlers make on \<open>String(...)\<close> values are string equalities here.
  A reference that the schema defaults to \<open>null\<close> is an \<open>option\<close>.
\<close>

type_synonym oid = string

record credential =
  cred_id :: oid
  system :: string
  username :: string
  password :: string

record division_doc =
  div_id :: oid
  div_name :: string
  credentials :: "credential list"

record ou_doc =
  ou_id :: oid
  ou_name :: string
  divisions :: "division_doc list"

record user_doc =
  user_id :: oid
  name :: string
  email :: string
  passwordHash :: string
  role :: string
  ou :: "oid option"
  division :: "oid option"

text \<open>The two collections of the store: \<open>User\<close> and \<open>OU\<close>.\<close>

record db =
  users :: "user_doc list"
  ous :: "ou_doc list"

section \<open>Requests, responses and the external primitives\<close>

text \<open>
  A response body is a JSON value; an object is the list of its key/value pairs in the
  order the handler writes them.
\<close>

datatype json =
  JNull
  | JBool bool
  | JStr string
  | JArr "json list"
  | JObj "(string \<times> json) list"

record response =
  status :: nat
  payload :: json

text \<open>
  The part of an Express request the handlers read: the \<open>authorization\<close> header, the
  route parameters \<open>:id\<close> and \<open>:credId\<close>, and the JSON body as a map from keys to
  string values (an absent key reads as \<open>undefined\<close>).
\<close>

record request =
  authorization :: "string option"
  params_id :: string
  params_credId :: string
  body :: "string \<rightharpoonup> string"

text \<open>The decoded token payload \<open>{ id, email, role }\<close> that the server signs.\<close>

record claims =
  tok_id :: oid
  tok_email :: string
  tok_role :: string

text \<open>
  The libraries the code calls are parameters. \<open>jwt_verify\<close> is
  \<open>jwt.verify(token, JWT_SECRET)\<close>, with \<open>None\<close> when it throws (bad signature,
  expired, not a token); \<open>jwt_sign\<close> is \<open>jwt.sign(payload, JWT_SECRET, {expiresIn: '1h'})\<close>;
  \<open>bcrypt_hash\<close> is \<open>bcrypt.hash(password, 10)\<close>; \<open>bcrypt_compare\<close> is
  \<open>bcrypt.compare\<close>, with \<open>None\<close> when it rejects; \<open>new_id\<close> is the object id
  given to a document created while the request is handled. \<open>cast_oid\<close> is the cast
  Mongoose applies to a string where the schema has an ObjectId: \<open>None\<close> when the
  string is not an object id (the query then throws a CastError), otherwise the id in
  the form \<open>String()\<close> gives.
\<close>

record env =
  jwt_verify :: "string \<Rightarrow> claims option"
  jwt_sign :: "claims \<Rightarrow> string"
  bcrypt_hash :: "string \<Rightarrow> string"
  bcrypt_compare :: "string option \<Rightarrow> string \<Rightarrow> bool option"
  new_id :: oid
  cast_oid :: "string \<Rightarrow> oid option"

text \<open>What a query throws; the \<open>catch\<close> of every handler turns it into a 500.\<close>

datatype error = CastError

definition err :: "nat \<Rightarrow> string \<Rightarrow> response" where
  "err code msg = \<lparr>status = code, payload = JObj [(''error'', JStr msg)]\<rparr>"

text \<open>JavaScript's \<open>!v\<close> on a value that is a string or \<open>undefined\<close>.\<close>

definition falsy :: "string option \<Rightarrow> bool" where
  "falsy v = (v = None \<or> v = Some [])"

text \<open>\<open>String.prototype.split\<close> with a one-character separator.\<close>

fun split :: "char \<Rightarrow> string \<Rightarrow> string list" where
  "split c [] = [[]]"
| "split c (x # xs) =
     (if x = c then [] # split c xs
      else (case split c xs of
              [] \<Rightarrow> [[x]]
            | w # ws \<Rightarrow> (x # w) # ws))"

text \<open>\<open>parts[i]\<close>: \<open>undefined\<close> beyond the end of the array.\<close>

definition at :: "'a list \<Rightarrow> nat \<Rightarrow> 'a option" where
  "at xs i = (if i < length xs then Some (xs ! i) else None)"

section \<open>backend/middleware/auth.js\<close>

text \<open>
  \<open>authMiddleware\<close> either answers the request itself (\<open>Inl\<close>) or calls \<open>next()\<close>
  with \<open>req.user\<close> set to the decoded payload (\<open>Inr\<close>).
\<close>

definition authMiddleware :: "env \<Rightarrow> request \<Rightarrow> response + claims" where
  "authMiddleware e req =
     (let authHeader = authorization req in
      if falsy authHeader then Inl (err 401 ''No Authorization header provided'')
      else
        let parts = split (CHR '' '') (the authHeader);
            scheme = at parts 0;
            token = at parts 1
        in if scheme \<noteq> Some ''Bearer'' \<or> falsy token
           then Inl (err 401 ''Malformed Authorization header. Use: Bearer <token>'')
           else (case jwt_verify e (the token) of
                   Some decoded \<Rightarrow> Inr decoded
                 | None \<Rightarrow> Inl (err 403 ''Invalid or expired token'')))"

section \<open>backend/server.js: the store and the helpers\<close>

text \<open>
  The Mongoose queries the handlers use, over the two collections. A query on an
  ObjectId path casts the string it is given and throws when the cast fails;
  \<open>findOne\<close> returns the first match. The \<open>.id()\<close> lookup of a subdocument array
  casts too, but answers \<open>null\<close> when the cast fails. \<open>save()\<close> of a loaded document
  writes it back over the stored document with its \<open>_id\<close>.
\<close>

fun update_first :: "('a \<Rightarrow> bool) \<Rightarrow> ('a \<Rightarrow> 'a) \<Rightarrow> 'a list \<Rightarrow> 'a list" where
  "update_first P f [] = []"
| "update_first P f (x # xs) = (if P x then f x # xs else x # update_first P f xs)"

definition User_findById :: "env \<Rightarrow> db \<Rightarrow> string \<Rightarrow> error + user_doc option" where
  "User_findById e d i =
     (case cast_oid e i of
        None \<Rightarrow> Inl CastError
      | Some k \<Rightarrow> Inr (find (\<lambda>u. user_id u = k) (users d)))"

definition User_findOne_email :: "db \<Rightarrow> string option \<Rightarrow> user_doc option" where
  "User_findOne_email d e = find (\<lambda>u. Some (email u) = e) (users d)"

definition User_save :: "user_doc \<Rightarrow> db \<Rightarrow> db" where
  "User_save u d = d\<lparr>users := update_first (\<lambda>x. user_id x = user_id u) (\<lambda>_. u) (users d)\<rparr>"

definition User_insert :: "user_doc \<Rightarrow> db \<Rightarrow> db" where
  "User_insert u d = d\<lparr>users := users d @ [u]\<rparr>"

definition OU_findById :: "env \<Rightarrow> db \<Rightarrow> string \<Rightarrow> error + ou_doc option" where
  "OU_findById e d i =
     (case cast_oid e i of
        None \<Rightarrow> Inl CastError
      | Some k \<Rightarrow> Inr (find (\<lambda>x. ou_id x = k) (ous d)))"

definition divisions_id :: "env \<Rightarrow> division_doc list \<Rightarrow> string \<Rightarrow> division_doc option" where
  "divisions_id e ds i =
     (case cast_oid e i of
        None \<Rightarrow> None
      | Some k \<Rightarrow> find (\<lambda>x. div_id x = k) ds)"

definition credentials_id :: "env \<Rightarrow> credential list \<Rightarrow> string \<Rightarrow> credential option" where
  "credentials_id e cs i =
     (case cast_oid e i of
        None \<Rightarrow> None
      | Some k \<Rightarrow> find (\<lambda>c. cred_id c = k) cs)"

definition OU_findOne_division :: "env \<Rightarrow> db \<Rightarrow> string \<Rightarrow> error + ou_doc option" where
  "OU_findOne_division e d i =
     (case cast_oid e i of
        None \<Rightarrow> Inl CastError
      | Some k \<Rightarrow> Inr (find (\<lambda>x. find (\<lambda>y. div_id y = k) (divisions x) \<noteq> None) (ous d)))"

definition OU_save :: "ou_doc \<Rightarrow> db \<Rightarrow> db" where
  "OU_save o' d = d\<lparr>ous := update_first (\<lambda>x. ou_id x = ou_id o') (\<lambda>_. o') (ous d)\<rparr>"

definition getCurrentUser :: "env \<Rightarrow> db \<Rightarrow> claims \<Rightarrow> error + user_doc option" where
  "getCurrentUser e d c = (if tok_id c = [] then Inr None else User_findById e d (tok_id c))"

text \<open>
  \<open>ensureDivisionAccess\<close> throws when the user lookup does (\<open>Inl\<close>); otherwise it
  has either sent a response (\<open>Inr (Inl r)\<close>) or returns the user (\<open>Inr (Inr u)\<close>).
\<close>

definition ensureDivisionAccess ::
  "env \<Rightarrow> db \<Rightarrow> claims \<Rightarrow> request \<Rightarrow> error + (response + user_doc)" where
  "ensureDivisionAccess e d c req =
     (case getCurrentUser e d c of
        Inl x \<Rightarrow> Inl x
      | Inr None \<Rightarrow> Inr (Inl (err 401 ''Unknown user''))
      | Inr (Some current) \<Rightarrow>
          let targetDivisionId = params_id req in
          if role current = ''normal''
             \<and> (division current = None \<or> division current \<noteq> Some targetDivisionId)
          then Inr (Inl (err 403 ''Not allowed for this division''))
          else Inr (Inr current))"

definition ref_json :: "oid option \<Rightarrow> json" where
  "ref_json r = (case r of None \<Rightarrow> JNull | Some i \<Rightarrow> JStr i)"

definition publicUser :: "user_doc \<Rightarrow> json" where
  "publicUser u = JObj
     [(''id'', JStr (user_id u)), (''name'', JStr (name u)), (''email'', JStr (email u)),
      (''role'', JStr (role u)), (''ou'', ref_json (ou u)), (''division'', ref_json (division u))]"

definition credential_json :: "credential \<Rightarrow> json" where
  "credential_json c = JObj
     [(''_id'', JStr (cred_id c)), (''system'', JStr (system c)),
      (''username'', JStr (username c)), (''password'', JStr (password c))]"

definition server_error :: response where
  "server_error = err 500 ''Server error''"

definition token_for :: "env \<Rightarrow> user_doc \<Rightarrow> string" where
  "token_for e u = jwt_sign e \<lparr>tok_id = user_id u, tok_email = email u, tok_role = role u\<rparr>"

section \<open>backend/server.js: the handlers\<close>

text \<open>
  A handler takes the store and the request and returns the response and the store after
  it. The handlers of protected routes run after \<open>authMiddleware\<close> and take the decoded
  payload it left in \<open>req.user\<close>. Where a query throws, the handler's \<open>catch\<close>
  answers 500 and nothing has been saved.
\<close>

definition register :: "env \<Rightarrow> db \<Rightarrow> request \<Rightarrow> response \<times> db" where
  "register e d req =
     (let name' = body req ''name''; email' = body req ''email''; password' = body req ''password'' in
      if falsy name' \<or> falsy email' \<or> falsy password' then (err 400 ''All fields required'', d)
      else if User_findOne_email d email' \<noteq> None then (err 409 ''Email already registered'', d)
      else
        let hash = bcrypt_hash e (the password');
            user = \<lparr>user_id = new_id e, name = the name', email = the email',
                    passwordHash = hash, role = ''normal'', ou = None, division = None\<rparr>
        in (\<lparr>status = 201,
             payload = JObj [(''message'', JStr ''Registered''),
                             (''token'', JStr (token_for e user)),
                             (''user'', publicUser user)]\<rparr>,
            User_insert user d))"

definition login :: "env \<Rightarrow> db \<Rightarrow> request \<Rightarrow> response \<times> db" where
  "login e d req =
     (let email' = body req ''email''; password' = body req ''password'' in
      case User_findOne_email d email' of
        None \<Rightarrow> (err 401 ''Invalid email or password'', d)
      | Some user \<Rightarrow>
          (case bcrypt_compare e password' (passwordHash user) of
             None \<Rightarrow> (server_error, d)
           | Some ok \<Rightarrow>
               if \<not> ok then (err 401 ''Invalid email or password'', d)
               else (\<lparr>status = 200,
                      payload = JObj [(''message'', JStr ''Login successful''),
                                      (''token'', JStr (token_for e user)),
                                      (''user'', publicUser user)]\<rparr>, d)))"

definition structure_items :: "db \<Rightarrow> json" where
  "structure_items d = JArr (map (\<lambda>u. JObj
     [(''ouId'', JStr (ou_id u)), (''ouName'', JStr (ou_name u)),
      (''divisions'', JArr (map (\<lambda>x. JObj
          [(''divisionId'', JStr (div_id x)), (''divisionName'', JStr (div_name x))])
        (divisions u)))]) (ous d))"

definition list_divisions :: "db \<Rightarrow> response \<times> db" where
  "list_divisions d = (\<lparr>status = 200, payload = JObj [(''items'', structure_items d)]\<rparr>, d)"

definition get_credentials :: "env \<Rightarrow> db \<Rightarrow> claims \<Rightarrow> request \<Rightarrow> response \<times> db" where
  "get_credentials e d c req =
     (case ensureDivisionAccess e d c req of
        Inl x \<Rightarrow> (server_error, d)
      | Inr (Inl r) \<Rightarrow> (r, d)
      | Inr (Inr current) \<Rightarrow>
          (case OU_findOne_division e d (params_id req) of
             Inl x \<Rightarrow> (server_error, d)
           | Inr None \<Rightarrow> (err 404 ''Division not found'', d)
           | Inr (Some result) \<Rightarrow>
               (case divisions_id e (divisions result) (params_id req) of
                  None \<Rightarrow> (err 404 ''Division not found'', d)
                | Some division' \<Rightarrow>
                    (\<lparr>status = 200,
                      payload = JObj
                        [(''division'', JObj [(''id'', JStr (div_id division')),
                                              (''name'', JStr (div_name division'))]),
                         (''credentials'', JArr (map credential_json (credentials division')))]\<rparr>,
                     d))))"

definition post_credentials :: "env \<Rightarrow> db \<Rightarrow> claims \<Rightarrow> request \<Rightarrow> response \<times> db" where
  "post_credentials e d c req =
     (case ensureDivisionAccess e d c req of
        Inl x \<Rightarrow> (server_error, d)
      | Inr (Inl r) \<Rightarrow> (r, d)
      | Inr (Inr current) \<Rightarrow>
          let system' = body req ''system''; username' = body req ''username'';
              password' = body req ''password''
          in if falsy system' \<or> falsy username' \<or> falsy password'
             then (err 400 ''system, username, password are required'', d)
             else
               (case OU_findOne_division e d (params_id req) of
                  Inl x \<Rightarrow> (server_error, d)
                | Inr None \<Rightarrow> (err 404 ''Division not found'', d)
                | Inr (Some ou') \<Rightarrow>
                    (case divisions_id e (divisions ou') (params_id req) of
                       None \<Rightarrow> (server_error, d)
                     | Some division' \<Rightarrow>
                         let created = \<lparr>cred_id = new_id e, system = the system',
                                        username = the username', password = the password'\<rparr>;
                             pushed = division'\<lparr>credentials := credentials division' @ [created]\<rparr>;
                             saved = ou'\<lparr>divisions :=
                                       update_first (\<lambda>x. div_id x = div_id division') (\<lambda>_. pushed)
                                         (divisions ou')\<rparr>
                         in (\<lparr>status = 201,
                              payload = JObj
                                [(''message'', JStr ''Credential added''),
                                 (''credentials'', JArr (map credential_json (credentials pushed)))]\<rparr>,
                             OU_save saved d))))"

text \<open>The three conditional assignments of the update handler.\<close>

definition apply_update :: "(string \<rightharpoonup> string) \<Rightarrow> credential \<Rightarrow> credential" where
  "apply_update b cred =
     (let c1 = (case b ''system'' of None \<Rightarrow> cred | Some v \<Rightarrow> cred\<lparr>system := v\<rparr>);
          c2 = (case b ''username'' of None \<Rightarrow> c1 | Some v \<Rightarrow> c1\<lparr>username := v\<rparr>);
          c3 = (case b ''password'' of None \<Rightarrow> c2 | Some v \<Rightarrow> c2\<lparr>password := v\<rparr>)
      in c3)"

definition put_credential :: "env \<Rightarrow> db \<Rightarrow> claims \<Rightarrow> request \<Rightarrow> response \<times> db" where
  "put_credential e d c req =
     (case getCurrentUser e d c of
        Inl x \<Rightarrow> (server_error, d)
      | Inr None \<Rightarrow> (err 401 ''Unknown user'', d)
      | Inr (Some current) \<Rightarrow>
          if role current = ''normal''
          then (err 403 ''Permission denied: management or admin required'', d)
          else
            (case OU_findOne_division e d (params_id req) of
               Inl x \<Rightarrow> (server_error, d)
             | Inr None \<Rightarrow> (err 404 ''Division not found'', d)
             | Inr (Some ou') \<Rightarrow>
                 (case divisions_id e (divisions ou') (params_id req) of
                    None \<Rightarrow> (server_error, d)
                  | Some division' \<Rightarrow>
                      (case credentials_id e (credentials division') (params_credId req) of
                         None \<Rightarrow> (err 404 ''Credential not found'', d)
                       | Some cred \<Rightarrow>
                           let cred' = apply_update (body req) cred;
                               division'' = division'\<lparr>credentials :=
                                   update_first (\<lambda>x. cred_id x = cred_id cred) (\<lambda>_. cred')
                                     (credentials division')\<rparr>;
                               saved = ou'\<lparr>divisions :=
                                   update_first (\<lambda>x. div_id x = div_id division') (\<lambda>_. division'')
                                     (divisions ou')\<rparr>
                           in (\<lparr>status = 200,
                                payload = JObj [(''message'', JStr ''Credential updated''),
                                                (''credential'', credential_json cred')]\<rparr>,
                               OU_save saved d)))))"

text \<open>The projection of \<open>GET /api/users\<close>, written out in the handler.\<close>

definition listed_user :: "user_doc \<Rightarrow> json" where
  "listed_user u = JObj
     [(''id'', JStr (user_id u)), (''name'', JStr (name u)), (''email'', JStr (email u)),
      (''role'', JStr (role u)),
      (''ou'', (case ou u of Some i \<Rightarrow> JStr i | None \<Rightarrow> JNull)),
      (''division'', (case division u of Some i \<Rightarrow> JStr i | None \<Rightarrow> JNull))]"

definition get_users :: "env \<Rightarrow> db \<Rightarrow> claims \<Rightarrow> response \<times> db" where
  "get_users e d c =
     (case getCurrentUser e d c of
        Inl x \<Rightarrow> (server_error, d)
      | Inr None \<Rightarrow> (err 401 ''Unknown user'', d)
      | Inr (Some current) \<Rightarrow>
          if role current = ''normal'' then (err 403 ''Management or admin required'', d)
          else (\<lparr>status = 200,
                 payload = JObj [(''items'', JArr (map listed_user (users d)))]\<rparr>, d))"

definition assign_user :: "env \<Rightarrow> db \<Rightarrow> claims \<Rightarrow> request \<Rightarrow> response \<times> db" where
  "assign_user e d c req =
     (case getCurrentUser e d c of
        Inl x \<Rightarrow> (server_error, d)
      | Inr None \<Rightarrow> (err 401 ''Unknown user'', d)
      | Inr (Some current) \<Rightarrow>
          if role current = ''normal'' then (err 403 ''Management or admin required'', d)
          else
            let ouId = body req ''ouId''; divisionId = body req ''divisionId'' in
            if falsy ouId \<or> falsy divisionId then (err 400 ''ouId and divisionId required'', d)
            else
              (case OU_findById e d (the ouId) of
                 Inl x \<Rightarrow> (server_error, d)
               | Inr None \<Rightarrow> (err 404 ''OU not found'', d)
               | Inr (Some ou') \<Rightarrow>
                   (case divisions_id e (divisions ou') (the divisionId) of
                      None \<Rightarrow> (err 400 ''divisionId does not belong to the specified OU'', d)
                    | Some division' \<Rightarrow>
                        (case User_findById e d (params_id req) of
                           Inl x \<Rightarrow> (server_error, d)
                         | Inr None \<Rightarrow> (err 404 ''User not found'', d)
                         | Inr (Some user) \<Rightarrow>
                             let user' = user\<lparr>ou := Some (ou_id ou'),
                                               division := Some (div_id division')\<rparr>
                             in (\<lparr>status = 200,
                                  payload = JObj [(''message'', JStr ''User assigned''),
                                                  (''user'', publicUser user')]\<rparr>,
                                 User_save user' d)))))"

definition unassign_user :: "env \<Rightarrow> db \<Rightarrow> claims \<Rightarrow> request \<Rightarrow> response \<times> db" where
  "unassign_user e d c req =
     (case getCurrentUser e d c of
        Inl x \<Rightarrow> (server_error, d)
      | Inr None \<Rightarrow> (err 401 ''Unknown user'', d)
      | Inr (Some current) \<Rightarrow>
          if role current = ''normal'' then (err 403 ''Management or admin required'', d)
          else
            (case User_findById e d (params_id req) of
               Inl x \<Rightarrow> (server_error, d)
             | Inr None \<Rightarrow> (err 404 ''User not found'', d)
             | Inr (Some user) \<Rightarrow>
                 let user' = user\<lparr>ou := None, division := None\<rparr>
                 in (\<lparr>status = 200,
                      payload = JObj [(''message'', JStr ''User unassigned''),
                                      (''user'', publicUser user')]\<rparr>,
                     User_save user' d)))"

definition allowed :: "string list" where
  "allowed = [''normal'', ''management'', ''admin'']"

definition change_role :: "env \<Rightarrow> db \<Rightarrow> claims \<Rightarrow> request \<Rightarrow> response \<times> db" where
  "change_role e d c req =
     (case getCurrentUser e d c of
        Inl x \<Rightarrow> (server_error, d)
      | Inr None \<Rightarrow> (err 401 ''Unknown user'', d)
      | Inr (Some current) \<Rightarrow>
          if role current \<noteq> ''admin'' then (err 403 ''Admin only'', d)
          else
            (case body req ''role'' of
               None \<Rightarrow> (err 400 ''Invalid role (normal | management | admin)'', d)
             | Some role' \<Rightarrow>
                 if role' \<notin> set allowed
                 then (err 400 ''Invalid role (normal | management | admin)'', d)
                 else
                   (case User_findById e d (params_id req) of
                      Inl x \<Rightarrow> (server_error, d)
                    | Inr None \<Rightarrow> (err 404 ''User not found'', d)
                    | Inr (Some user) \<Rightarrow>
                        let user' = user\<lparr>role := role'\<rparr>;
                            requireReLogin = (user_id user' = user_id current)
                        in (\<lparr>status = 200,
                             payload = JObj [(''message'', JStr ''Role updated''),
                                             (''user'', publicUser user'),
                                             (''requireReLogin'', JBool requireReLogin)]\<rparr>,
                            User_save user' d))))"

section \<open>The routes\<close>

datatype route =
  Register
  | Login
  | DevDivisions
  | StructureOus
  | GetCredentials
  | PostCredentials
  | PutCredential
  | GetUsers
  | AssignUser
  | UnassignUser
  | ChangeRole
  | Health

text \<open>A route registered as \<open>app.METHOD(path, authMiddleware, handler)\<close>.\<close>

definition guarded :: "env \<Rightarrow> db \<Rightarrow> request \<Rightarrow> (claims \<Rightarrow> response \<times> db) \<Rightarrow> response \<times> db" where
  "guarded e d req handler =
     (case authMiddleware e req of
        Inl r \<Rightarrow> (r, d)
      | Inr decoded \<Rightarrow> handler decoded)"

fun app :: "env \<Rightarrow> db \<Rightarrow> route \<Rightarrow> request \<Rightarrow> response \<times> db" where
  "app e d Register req = register e d req"
| "app e d Login req = login e d req"
| "app e d DevDivisions req = guarded e d req (\<lambda>c. list_divisions d)"
| "app e d StructureOus req = guarded e d req (\<lambda>c. list_divisions d)"
| "app e d GetCredentials req = guarded e d req (\<lambda>c. get_credentials e d c req)"
| "app e d PostCredentials req = guarded e d req (\<lambda>c. post_credentials e d c req)"
| "app e d PutCredential req = guarded e d req (\<lambda>c. put_credential e d c req)"
| "app e d GetUsers req = guarded e d req (\<lambda>c. get_users e d c)"
| "app e d AssignUser req = guarded e d req (\<lambda>c. assign_user e d c req)"
| "app e d UnassignUser req = guarded e d req (\<lambda>c. unassign_user e d c req)"
| "app e d ChangeRole req = guarded e d req (\<lambda>c. change_role e d c req)"
| "app e d Health req = (\<lparr>status = 200, payload = JObj [(''status'', JStr ''ok'')]\<rparr>, d)"

definition protected :: "route \<Rightarrow> bool" where
  "protected rt = (rt \<notin> {Register, Login, Health})"

text \<open>Reading a field of a JSON object, and all the keys that occur in a JSON value.\<close>

fun jget :: "string \<Rightarrow> json \<Rightarrow> json option" where
  "jget k (JObj kvs) = map_of kvs k"
| "jget k _ = None"

fun json_keys :: "json \<Rightarrow> string set" where
  "json_keys (JArr xs) = (\<Union>x \<in> set xs. json_keys x)"
| "json_keys (JObj kvs) = (\<Union>kv \<in> set kvs. insert (fst kv) (json_keys (snd kv)))"
| "json_keys _ = {}"

text \<open>
  The credential list stored for a division id, looked up the way the handlers do: the
  first unit owning a division with that id, then that division in the unit.
\<close>

definition division_credentials :: "env \<Rightarrow> db \<Rightarrow> string \<Rightarrow> credential list option" where
  "division_credentials e d i =
     (case OU_findOne_division e d i of
        Inl x \<Rightarrow> None
      | Inr None \<Rightarrow> None
      | Inr (Some u) \<Rightarrow> map_option credentials (divisions_id e (divisions u) i))"

text \<open>The assignment state of a user is whole: both references set, or neither.\<close>

definition assignment_whole :: "user_doc \<Rightarrow> bool" where
  "assignment_whole u = (ou u = None \<longleftrightarrow> division u = None)"

text \<open>The store with the stored password hash of every user replaced by another string.\<close>

definition rehash_user :: "(user_doc \<Rightarrow> string) \<Rightarrow> user_doc \<Rightarrow> user_doc" where
  "rehash_user g u = u\<lparr>passwordHash := g u\<rparr>"

definition rehash :: "(user_doc \<Rightarrow> string) \<Rightarrow> db \<Rightarrow> db" where
  "rehash g d = d\<lparr>users := map (rehash_user g) (users d)\<rparr>"

section \<open>A small store and requests to run the handlers on\<close>

text \<open>
  Object ids of the example are 24 hexadecimal digits; the example's cast accepts exactly
  such strings and puts the digits in lower case.
\<close>

definition ex_oid :: "string \<Rightarrow> oid" where
  "ex_oid s = ''65000000000000000000'' @ s"

definition hex_lower :: "char \<Rightarrow> char option" where
  "hex_lower c =
     (if c \<in> set ''0123456789abcdef'' then Some c
      else map_of (zip ''ABCDEF'' ''abcdef'') c)"

definition ex_cast :: "string \<Rightarrow> oid option" where
  "ex_cast s = (if length s = 24 then those (map hex_lower s) else None)"

definition claims_normal :: claims where
  "claims_normal = \<lparr>tok_id = ex_oid ''a001'', tok_email = ''n@x'', tok_role = ''normal''\<rparr>"

definition claims_manager :: claims where
  "claims_manager = \<lparr>tok_id = ex_oid ''a002'', tok_email = ''m@x'', tok_role = ''management''\<rparr>"

definition claims_admin :: claims where
  "claims_admin = \<lparr>tok_id = ex_oid ''a003'', tok_email = ''a@x'', tok_role = ''admin''\<rparr>"

definition ex_verify :: "string \<Rightarrow> claims option" where
  "ex_verify t =
     (if t = ''tokN'' then Some claims_normal
      else if t = ''tokM'' then Some claims_manager
      else if t = ''tokA'' then Some claims_admin
      else None)"

definition ex_sign :: "claims \<Rightarrow> string" where
  "ex_sign c = ''jwt:'' @ tok_id c"

definition ex_hash :: "string \<Rightarrow> string" where
  "ex_hash p = ''h:'' @ p"

definition ex_compare :: "string option \<Rightarrow> string \<Rightarrow> bool option" where
  "ex_compare p h = (case p of None \<Rightarrow> None | Some s \<Rightarrow> Some (h = ex_hash s))"

definition ex_env :: env where
  "ex_env = \<lparr>jwt_verify = ex_verify, jwt_sign = ex_sign, bcrypt_hash = ex_hash,
             bcrypt_compare = ex_compare, new_id = ex_oid ''e001'', cast_oid = ex_cast\<rparr>"

definition user_normal :: user_doc where
  "user_normal = \<lparr>user_id = ex_oid ''a001'', name = ''Nomsa'', email = ''n@x'',
                   passwordHash = ''h:pw1'', role = ''normal'',
                   ou = Some (ex_oid ''b001''), division = Some (ex_oid ''d001'')\<rparr>"

definition user_manager :: user_doc where
  "user_manager = \<lparr>user_id = ex_oid ''a002'', name = ''Musa'', email = ''m@x'',
                    passwordHash = ''h:pw2'', role = ''management'', ou = None, division = None\<rparr>"

definition user_admin :: user_doc where
  "user_admin = \<lparr>user_id = ex_oid ''a003'', name = ''Ayanda'', email = ''a@x'',
                  passwordHash = ''h:pw3'', role = ''admin'', ou = None, division = None\<rparr>"

definition cred_wiki :: credential where
  "cred_wiki = \<lparr>cred_id = ex_oid ''c001'', system = ''wiki'', username = ''root'',
                 password = ''s3''\<rparr>"

definition cred_mail :: credential where
  "cred_mail = \<lparr>cred_id = ex_oid ''c002'', system = ''mail'', username = ''ops'',
                 password = ''s4''\<rparr>"

definition div_it :: division_doc where
  "div_it = \<lparr>div_id = ex_oid ''d001'', div_name = ''IT Division'',
              credentials = [cred_wiki, cred_mail]\<rparr>"

definition div_finance :: division_doc where
  "div_finance = \<lparr>div_id = ex_oid ''d002'', div_name = ''Finance Division'', credentials = []\<rparr>"

definition ou_news :: ou_doc where
  "ou_news = \<lparr>ou_id = ex_oid ''b001'', ou_name = ''News Management'',
               divisions = [div_it, div_finance]\<rparr>"

definition ex_db :: db where
  "ex_db = \<lparr>users = [user_normal, user_manager, user_admin], ous = [ou_news]\<rparr>"

definition no_fields :: "string \<rightharpoonup> string" where
  "no_fields k = None"

definition ex_req :: "string \<Rightarrow> string \<Rightarrow> string \<Rightarrow> (string \<rightharpoonup> string) \<Rightarrow> request" where
  "ex_req tok i ci b =
     \<lparr>authorization = Some (''Bearer '' @ tok), params_id = i, params_credId = ci, body = b\<rparr>"

definition body_role :: "string \<Rightarrow> string \<rightharpoonup> string" where
  "body_role r k = (if k = ''role'' then Some r else None)"

definition body_register :: "string \<rightharpoonup> string" where
  "body_register k =
     (if k = ''name'' then Some ''Zola'' else if k = ''email'' then Some ''z@x''
      else if k = ''password'' then Some ''pw9'' else if k = ''role'' then Some ''admin''
      else None)"

definition body_login :: "string \<Rightarrow> string \<Rightarrow> string \<rightharpoonup> string" where
  "body_login em pw k =
     (if k = ''email'' then Some em else if k = ''password'' then Some pw else None)"

definition body_email :: "string \<Rightarrow> string \<rightharpoonup> string" where
  "body_email em k = (if k = ''email'' then Some em else None)"

definition req_with_header :: "string option \<Rightarrow> request" where
  "req_with_header h =
     \<lparr>authorization = h, params_id = ex_oid ''d001'', params_credId = ex_oid ''c001'',
      body = no_fields\<rparr>"

definition body_assign :: "string \<Rightarrow> string \<Rightarrow> string \<rightharpoonup> string" where
  "body_assign uid did k =
     (if k = ''ouId'' then Some uid else if k = ''divisionId'' then Some did else None)"

definition body_ouId :: "string \<Rightarrow> string \<rightharpoonup> string" where
  "body_ouId uid k = (if k = ''ouId'' then Some uid else None)"

definition body_password :: "string \<Rightarrow> string \<rightharpoonup> string" where
  "body_password v k = (if k = ''password'' then Some v else None)"

text \<open>Another hash for every user but the one with the given email.\<close>

definition other_hashes :: "string \<Rightarrow> user_doc \<Rightarrow> string" where
  "other_hashes em u = (if email u = em then passwordHash u else ''h:changed'')"

section \<open>Running the example\<close>

lemma ex_oid_eq [simp]: "ex_oid s = ex_oid t \<longleftrightarrow> s = t"
  by (simp add: ex_oid_def)

lemma ex_oid_not_empty [simp]: "ex_oid s \<noteq> []"
  by (simp add: ex_oid_def)

lemma ex_cast_ids [simp]:
  "cast_oid ex_env (ex_oid ''a001'') = Some (ex_oid ''a001'')"
  "cast_oid ex_env (ex_oid ''a002'') = Some (ex_oid ''a002'')"
  "cast_oid ex_env (ex_oid ''a003'') = Some (ex_oid ''a003'')"
  "cast_oid ex_env (ex_oid ''b001'') = Some (ex_oid ''b001'')"
  "cast_oid ex_env (ex_oid ''b009'') = Some (ex_oid ''b009'')"
  "cast_oid ex_env (ex_oid ''c001'') = Some (ex_oid ''c001'')"
  "cast_oid ex_env (ex_oid ''d001'') = Some (ex_oid ''d001'')"
  "cast_oid ex_env (ex_oid ''d002'') = Some (ex_oid ''d002'')"
  "cast_oid ex_env (ex_oid ''d009'') = Some (ex_oid ''d009'')"
  "cast_oid ex_env ''xyz'' = None"
  by (simp_all add: ex_env_def ex_cast_def ex_oid_def hex_lower_def)

lemma ex_auth:
  "authMiddleware ex_env (ex_req ''tokN'' i ci b) = Inr claims_normal"
  "authMiddleware ex_env (ex_req ''tokM'' i ci b) = Inr claims_manager"
  "authMiddleware ex_env (ex_req ''tokA'' i ci b) = Inr claims_admin"
  by (simp_all add: authMiddleware_def ex_env_def ex_req_def ex_verify_def falsy_def at_def)

lemma ex_users:
  "role user_normal = ''normal''" "division user_normal = Some (ex_oid ''d001'')"
  "role user_manager = ''management''" "role user_admin = ''admin''"
  "user_id user_normal = ex_oid ''a001''" "user_id user_manager = ex_oid ''a002''"
  "user_id user_admin = ex_oid ''a003''"
  by (simp_all add: user_normal_def user_manager_def user_admin_def)

lemma ex_find_user:
  "User_findById ex_env ex_db (ex_oid ''a001'') = Inr (Some user_normal)"
  "User_findById ex_env ex_db (ex_oid ''a002'') = Inr (Some user_manager)"
  "User_findById ex_env ex_db (ex_oid ''a003'') = Inr (Some user_admin)"
  by (simp_all add: User_findById_def ex_db_def ex_users)

lemma ex_current:
  "getCurrentUser ex_env ex_db claims_normal = Inr (Some user_normal)"
  "getCurrentUser ex_env ex_db claims_manager = Inr (Some user_manager)"
  "getCurrentUser ex_env ex_db claims_admin = Inr (Some user_admin)"
  by (simp_all add: getCurrentUser_def ex_find_user claims_normal_def claims_manager_def
        claims_admin_def)

lemma ex_req_sel [simp]:
  "params_id (ex_req t i ci b) = i"
  "params_credId (ex_req t i ci b) = ci"
  "body (ex_req t i ci b) = b"
  by (simp_all add: ex_req_def)

lemma status_err [simp]: "status (err n m) = n"
  by (simp add: err_def)

section \<open>Authorization of the credential operations\<close>

text \<open>
  C3. A user whose live role is \<open>normal\<close> gets 403 Forbidden from the credential
  update route for every division id in the path, and the store is left as it was; the
  user's own division is no exception.
\<close>

theorem update_forbidden_for_normal:
  assumes "authMiddleware e req = Inr c"
    and "getCurrentUser e d c = Inr (Some u)"
    and "role u = ''normal''"
  shows "app e d PutCredential req =
           (err 403 ''Permission denied: management or admin required'', d)"
  using assms by (simp add: guarded_def put_credential_def)

theorem update_forbidden_for_normal_witness:
  "division user_normal = Some (ex_oid ''d001'') \<and>
   app ex_env ex_db PutCredential (ex_req ''tokN'' (ex_oid ''d001'') (ex_oid ''c001'') no_fields) =
     (err 403 ''Permission denied: management or admin required'', ex_db)"
  using update_forbidden_for_normal [OF ex_auth(1) ex_current(1) ex_users(1)] ex_users(2)
  by simp

lemma ensureDivisionAccess_cases:
  assumes "getCurrentUser e d c = Inr (Some u)"
  shows "ensureDivisionAccess e d c req =
           (if role u = ''normal'' \<and> division u \<noteq> Some (params_id req)
            then Inr (Inl (err 403 ''Not allowed for this division'')) else Inr (Inr u))"
  using assms by (auto simp: ensureDivisionAccess_def)





lemma OU_findOne_division_None:
  "OU_findOne_division e d i = Inr None \<longleftrightarrow>
     (\<exists>k. cast_oid e i = Some k \<and> (\<forall>u \<in> set (ous d). k \<notin> div_id ` set (divisions u)))"
  by (auto simp: OU_findOne_division_def find_None_iff split: option.splits)

lemma ex_no_d009: "OU_findOne_division ex_env ex_db (ex_oid ''d009'') = Inr None"
  by (simp add: OU_findOne_division_def ex_db_def ou_news_def div_it_def div_finance_def)

text \<open>
  C10, as stated, fails for the add route: an admin who posts an empty body to a
  well-formed division id that no unit owns gets 400, not 404, because the body is
  validated before the division is looked up.
\<close>

theorem add_to_missing_division_counterexample:
  "getCurrentUser ex_env ex_db claims_admin = Inr (Some user_admin)
   \<and> role user_admin = ''admin''
   \<and> OU_findOne_division ex_env ex_db (ex_oid ''d009'') = Inr None
   \<and> app ex_env ex_db PostCredentials (ex_req ''tokA'' (ex_oid ''d009'') [] no_fields) =
       (err 400 ''system, username, password are required'', ex_db)
   \<and> status (fst (app ex_env ex_db PostCredentials
                     (ex_req ''tokA'' (ex_oid ''d009'') [] no_fields))) \<noteq> 404"
proof -
  have acc: "ensureDivisionAccess ex_env ex_db claims_admin
               (ex_req ''tokA'' (ex_oid ''d009'') [] no_fields) = Inr (Inr user_admin)"
    by (simp add: ensureDivisionAccess_cases [OF ex_current(3)] ex_users)
  have run: "app ex_env ex_db PostCredentials (ex_req ''tokA'' (ex_oid ''d009'') [] no_fields) =
       (err 400 ''system, username, password are required'', ex_db)"
    by (simp add: guarded_def ex_auth(3) post_credentials_def acc no_fields_def falsy_def)
  show ?thesis
    using ex_current(3) ex_users(4) ex_no_d009 run by simp
qed

text \<open>
  C10, amended. On the read and add routes the permission check comes before the
  division lookup: a \<open>normal\<close> user whose stored division differs from the id in the
  path gets 403 whether or not the division exists. A \<open>management\<close> or \<open>admin\<close>
  user asking for a division id that is a well-formed object id and that no unit owns
  gets 404 on read; on add the answer is 404 when the body carries non-empty
  \<open>system\<close>, \<open>username\<close> and \<open>password\<close>, and 400 otherwise.
\<close>

theorem permission_before_existence:
  assumes auth: "authMiddleware e req = Inr c"
    and cur: "getCurrentUser e d c = Inr (Some u)"
  shows "(role u = ''normal'' \<and> division u \<noteq> Some (params_id req) \<longrightarrow>
            app e d GetCredentials req = (err 403 ''Not allowed for this division'', d)
          \<and> app e d PostCredentials req = (err 403 ''Not allowed for this division'', d))
       \<and> (\<forall>k. (role u = ''management'' \<or> role u = ''admin'')
              \<and> cast_oid e (params_id req) = Some k
              \<and> (\<forall>x \<in> set (ous d). k \<notin> div_id ` set (divisions x)) \<longrightarrow>
            app e d GetCredentials req = (err 404 ''Division not found'', d)
          \<and> app e d PostCredentials req =
              (if falsy (body req ''system'') \<or> falsy (body req ''username'')
                  \<or> falsy (body req ''password'')
               then (err 400 ''system, username, password are required'', d)
               else (err 404 ''Division not found'', d)))"
proof -
  have acc: "ensureDivisionAccess e d c req =
               (if role u = ''normal'' \<and> division u \<noteq> Some (params_id req)
                then Inr (Inl (err 403 ''Not allowed for this division'')) else Inr (Inr u))"
    by (rule ensureDivisionAccess_cases [OF cur])
  have denied: "role u = ''normal'' \<and> division u \<noteq> Some (params_id req) \<longrightarrow>
            app e d GetCredentials req = (err 403 ''Not allowed for this division'', d)
          \<and> app e d PostCredentials req = (err 403 ''Not allowed for this division'', d)"
    using auth acc by (simp add: guarded_def get_credentials_def post_credentials_def)
  have missing: "app e d GetCredentials req = (err 404 ''Division not found'', d)
          \<and> app e d PostCredentials req =
              (if falsy (body req ''system'') \<or> falsy (body req ''username'')
                  \<or> falsy (body req ''password'')
               then (err 400 ''system, username, password are required'', d)
               else (err 404 ''Division not found'', d))"
    if r: "role u = ''management'' \<or> role u = ''admin''"
      and k: "cast_oid e (params_id req) = Some k"
      and no: "\<forall>x \<in> set (ous d). k \<notin> div_id ` set (divisions x)" for k
  proof -
    from k no have nf: "OU_findOne_division e d (params_id req) = Inr None"
      unfolding OU_findOne_division_None by blast
    from r acc have ok: "ensureDivisionAccess e d c req = Inr (Inr u)" by auto
    show ?thesis
      using auth by (simp add: guarded_def get_credentials_def post_credentials_def ok nf)
  qed
  from denied missing show ?thesis by blast
qed

theorem permission_before_existence_witness:
  "OU_findOne_division ex_env ex_db (ex_oid ''d009'') = Inr None
   \<and> app ex_env ex_db GetCredentials (ex_req ''tokN'' (ex_oid ''d009'') [] no_fields) =
       (err 403 ''Not allowed for this division'', ex_db)
   \<and> app ex_env ex_db GetCredentials (ex_req ''tokM'' (ex_oid ''d009'') [] no_fields) =
       (err 404 ''Division not found'', ex_db)"
proof -
  have no: "\<forall>x \<in> set (ous ex_db). ex_oid ''d009'' \<notin> div_id ` set (divisions x)"
    by (simp add: ex_db_def ou_news_def div_it_def div_finance_def)
  from permission_before_existence
         [OF ex_auth(1) [of "ex_oid ''d009''" "[]" no_fields] ex_current(1)]
  have a: "app ex_env ex_db GetCredentials (ex_req ''tokN'' (ex_oid ''d009'') [] no_fields) =
       (err 403 ''Not allowed for this division'', ex_db)"
    by (simp add: ex_users del: app.simps)
  from permission_before_existence
         [OF ex_auth(2) [of "ex_oid ''d009''" "[]" no_fields] ex_current(2)] no
  have b: "app ex_env ex_db GetCredentials (ex_req ''tokM'' (ex_oid ''d009'') [] no_fields) =
       (err 404 ''Division not found'', ex_db)"
    by (simp add: ex_users del: app.simps)
  from ex_no_d009 a b show ?thesis by (intro conjI)
qed

text \<open>
  When the division id in the path is not an object id, the lookup throws: a user who
  passes the permission check gets 500 on read, and on add with a complete body.
\<close>

lemma malformed_division_id:
  assumes auth: "authMiddleware e req = Inr c"
    and cur: "getCurrentUser e d c = Inr (Some u)"
    and r: "role u \<noteq> ''normal''"
    and bad: "cast_oid e (params_id req) = None"
  shows "app e d GetCredentials req = (server_error, d)"
    and "\<not> falsy (body req ''system'') \<Longrightarrow> \<not> falsy (body req ''username'') \<Longrightarrow>
         \<not> falsy (body req ''password'') \<Longrightarrow> app e d PostCredentials req = (server_error, d)"
  using auth r bad ensureDivisionAccess_cases [OF cur, of req]
  by (simp_all add: guarded_def get_credentials_def post_credentials_def OU_findOne_division_def)

lemma User_findById_id:
  "User_findById e d i = Inr (Some u) \<Longrightarrow> cast_oid e i = Some (user_id u) \<and> u \<in> set (users d)"
  by (auto simp: User_findById_def find_Some_iff split: option.splits)

section \<open>Changing a role\<close>

text \<open>
  C5. When the change-role route succeeds (the acting user's live role is \<open>admin\<close>, the
  new role is one of \<open>normal\<close>, \<open>management\<close>, \<open>admin\<close>, and the target user
  exists), the answer is 200 and its \<open>requireReLogin\<close> field is true exactly when the
  target user is the acting user.
\<close>

theorem relogin_flag_iff_self:
  assumes auth: "authMiddleware e req = Inr c"
    and cur: "getCurrentUser e d c = Inr (Some current)"
    and adm: "role current = ''admin''"
    and new: "body req ''role'' = Some r" "r \<in> {''normal'', ''management'', ''admin''}"
    and tgt: "User_findById e d (params_id req) = Inr (Some target)"
  shows "status (fst (app e d ChangeRole req)) = 200
       \<and> jget ''requireReLogin'' (payload (fst (app e d ChangeRole req)))
           = Some (JBool (user_id target = user_id current))"
  using assms by (simp add: guarded_def change_role_def allowed_def Let_def)

theorem relogin_flag_iff_self_witness:
  "jget ''requireReLogin''
     (payload (fst (app ex_env ex_db ChangeRole
                      (ex_req ''tokA'' (ex_oid ''a003'') [] (body_role ''management'')))))
     = Some (JBool True)
   \<and> jget ''requireReLogin''
     (payload (fst (app ex_env ex_db ChangeRole
                      (ex_req ''tokA'' (ex_oid ''a001'') [] (body_role ''management'')))))
     = Some (JBool False)"
proof -
  have b: "body (ex_req ''tokA'' i [] (body_role ''management'')) ''role'' = Some ''management''" for i
    by (simp add: body_role_def)
  have r: "''management'' \<in> {''normal'', ''management'', ''admin''}" by simp
  have t3: "User_findById ex_env ex_db
              (params_id (ex_req ''tokA'' (ex_oid ''a003'') [] (body_role ''management'')))
              = Inr (Some user_admin)"
    and t1: "User_findById ex_env ex_db
               (params_id (ex_req ''tokA'' (ex_oid ''a001'') [] (body_role ''management'')))
              = Inr (Some user_normal)"
    by (simp_all add: ex_find_user)
  from relogin_flag_iff_self [OF ex_auth(3) ex_current(3) ex_users(4) b r t3]
       relogin_flag_iff_self [OF ex_auth(3) ex_current(3) ex_users(4) b r t1]
  show ?thesis by (simp add: ex_users del: app.simps)
qed

section \<open>Registration and login\<close>

text \<open>
  C8. A registration that succeeds stores one new user whose role is \<open>normal\<close>, and
  the user object and the token of the answer carry that role; a registration that does
  not succeed stores nothing. Whatever the body holds under the key \<open>role\<close>, or
  whether it holds that key at all, the outcome is the same.
\<close>

theorem register_role_always_normal:
  "(status (fst (app e d Register req)) = 201 \<longrightarrow>
      (\<exists>u. snd (app e d Register req) = d\<lparr>users := users d @ [u]\<rparr>
           \<and> role u = ''normal''
           \<and> jget ''user'' (payload (fst (app e d Register req))) = Some (publicUser u)
           \<and> jget ''token'' (payload (fst (app e d Register req)))
               = Some (JStr (jwt_sign e \<lparr>tok_id = user_id u, tok_email = email u,
                                          tok_role = ''normal''\<rparr>))))
   \<and> (status (fst (app e d Register req)) \<noteq> 201 \<longrightarrow> snd (app e d Register req) = d)
   \<and> app e d Register (req\<lparr>body := (body req)(''role'' := v)\<rparr>) = app e d Register req"
proof -
  let ?user = "\<lparr>user_id = new_id e, name = the (body req ''name''),
                email = the (body req ''email''),
                passwordHash = bcrypt_hash e (the (body req ''password'')),
                role = ''normal'', ou = None, division = None\<rparr>"
  have created: "status (fst (app e d Register req)) = 201 \<Longrightarrow>
      app e d Register req =
        (\<lparr>status = 201,
          payload = JObj [(''message'', JStr ''Registered''),
                          (''token'', JStr (token_for e ?user)),
                          (''user'', publicUser ?user)]\<rparr>,
         d\<lparr>users := users d @ [?user]\<rparr>)"
    by (simp add: register_def Let_def User_insert_def split: if_splits)
  have first: "status (fst (app e d Register req)) = 201 \<longrightarrow>
      (\<exists>u. snd (app e d Register req) = d\<lparr>users := users d @ [u]\<rparr>
           \<and> role u = ''normal''
           \<and> jget ''user'' (payload (fst (app e d Register req))) = Some (publicUser u)
           \<and> jget ''token'' (payload (fst (app e d Register req)))
               = Some (JStr (jwt_sign e \<lparr>tok_id = user_id u, tok_email = email u,
                                          tok_role = ''normal''\<rparr>)))"
  proof
    assume "status (fst (app e d Register req)) = 201"
    from created [OF this] show "\<exists>u. snd (app e d Register req) = d\<lparr>users := users d @ [u]\<rparr>
           \<and> role u = ''normal''
           \<and> jget ''user'' (payload (fst (app e d Register req))) = Some (publicUser u)
           \<and> jget ''token'' (payload (fst (app e d Register req)))
               = Some (JStr (jwt_sign e \<lparr>tok_id = user_id u, tok_email = email u,
                                          tok_role = ''normal''\<rparr>))"
      by (intro exI [of _ ?user]) (simp add: token_for_def)
  qed
  have second: "status (fst (app e d Register req)) \<noteq> 201 \<longrightarrow> snd (app e d Register req) = d"
    by (simp add: register_def Let_def)
  have third: "app e d Register (req\<lparr>body := (body req)(''role'' := v)\<rparr>) = app e d Register req"
    by (simp add: register_def)
  from first second third show ?thesis by blast
qed

theorem register_role_always_normal_witness:
  "body_register ''role'' = Some ''admin''
   \<and> status (fst (app ex_env ex_db Register (ex_req [] [] [] body_register))) = 201
   \<and> map role (users (snd (app ex_env ex_db Register (ex_req [] [] [] body_register))))
       = [''normal'', ''management'', ''admin'', ''normal'']"
proof -
  have st: "status (fst (app ex_env ex_db Register (ex_req [] [] [] body_register))) = 201"
    by (simp add: register_def Let_def body_register_def falsy_def User_findOne_email_def
          ex_db_def user_normal_def user_manager_def user_admin_def)
  from register_role_always_normal [of ex_env ex_db "ex_req [] [] [] body_register"] st
  obtain u where "snd (app ex_env ex_db Register (ex_req [] [] [] body_register))
                    = ex_db\<lparr>users := users ex_db @ [u]\<rparr>" "role u = ''normal''"
    by blast
  then show ?thesis
    using st by (simp add: ex_db_def ex_users body_register_def del: app.simps)
qed

text \<open>
  What the login route answers when it does not succeed: 401 with the one message when
  no user has the email, the same 401 when \<open>bcrypt.compare\<close> reports no match, and
  500 when \<open>bcrypt.compare\<close> rejects.
\<close>

lemma login_outcomes:
  "(User_findOne_email d (body req ''email'') = None \<longrightarrow>
      app e d Login req = (err 401 ''Invalid email or password'', d))
   \<and> (\<forall>u. User_findOne_email d (body req ''email'') = Some u
          \<and> bcrypt_compare e (body req ''password'') (passwordHash u) = Some False \<longrightarrow>
      app e d Login req = (err 401 ''Invalid email or password'', d))
   \<and> (\<forall>u. User_findOne_email d (body req ''email'') = Some u
          \<and> bcrypt_compare e (body req ''password'') (passwordHash u) = None \<longrightarrow>
      app e d Login req = (server_error, d))"
  by (auto simp: login_def)

text \<open>
  C9. The two 401 answers of the login route are the same, but a failed login can still
  tell a known email from an unknown one: a body with an email and no password is
  answered 500 when a user has that email, because \<open>bcrypt.compare\<close> rejects an
  undefined password, and 401 when no user has it.
\<close>

theorem login_without_password_reveals_email:
  "User_findOne_email ex_db (Some ''n@x'') = Some user_normal
   \<and> User_findOne_email ex_db (Some ''nobody@x'') = None
   \<and> bcrypt_compare ex_env None (passwordHash user_normal) = None
   \<and> app ex_env ex_db Login (ex_req [] [] [] (body_email ''n@x'')) = (server_error, ex_db)
   \<and> app ex_env ex_db Login (ex_req [] [] [] (body_email ''nobody@x''))
       = (err 401 ''Invalid email or password'', ex_db)
   \<and> fst (app ex_env ex_db Login (ex_req [] [] [] (body_email ''n@x'')))
       \<noteq> fst (app ex_env ex_db Login (ex_req [] [] [] (body_email ''nobody@x'')))"
proof -
  have known: "User_findOne_email ex_db (Some ''n@x'') = Some user_normal"
    by (simp add: User_findOne_email_def ex_db_def user_normal_def)
  have unknown: "User_findOne_email ex_db (Some ''nobody@x'') = None"
    by (simp add: User_findOne_email_def ex_db_def user_normal_def user_manager_def
          user_admin_def)
  have rejects: "bcrypt_compare ex_env None (passwordHash user_normal) = None"
    by (simp add: ex_env_def ex_compare_def)
  have a: "app ex_env ex_db Login (ex_req [] [] [] (body_email ''n@x'')) = (server_error, ex_db)"
    by (simp add: login_def body_email_def known rejects)
  have b: "app ex_env ex_db Login (ex_req [] [] [] (body_email ''nobody@x''))
             = (err 401 ''Invalid email or password'', ex_db)"
    by (simp add: login_def body_email_def unknown)
  have c: "fst (app ex_env ex_db Login (ex_req [] [] [] (body_email ''n@x'')))
             \<noteq> fst (app ex_env ex_db Login (ex_req [] [] [] (body_email ''nobody@x'')))"
    unfolding a b by (simp add: server_error_def err_def)
  from known unknown rejects a b c show ?thesis by (intro conjI)
qed

section \<open>The authentication guard\<close>

lemma split_shape:
  "split c h = takeWhile (\<lambda>x. x \<noteq> c) h #
     (case dropWhile (\<lambda>x. x \<noteq> c) h of [] \<Rightarrow> [] | y # r \<Rightarrow> split c r)"
  by (induction h) (auto split: list.splits)

lemma split_first: "at (split c h) 0 = Some (takeWhile (\<lambda>x. x \<noteq> c) h)"
  by (subst split_shape) (simp add: at_def)

lemma split_second:
  "at (split c h) (Suc 0) =
     (case dropWhile (\<lambda>x. x \<noteq> c) h of
        [] \<Rightarrow> None
      | y # r \<Rightarrow> Some (takeWhile (\<lambda>x. x \<noteq> c) r))"
proof (cases "dropWhile (\<lambda>x. x \<noteq> c) h")
  case Nil
  from split_shape [of c h] have "split c h = [takeWhile (\<lambda>x. x \<noteq> c) h]"
    unfolding Nil by simp
  then show ?thesis
    unfolding Nil by (simp add: at_def)
next
  case (Cons y r)
  from split_shape [of c h] have "split c h = takeWhile (\<lambda>x. x \<noteq> c) h # split c r"
    unfolding Cons by simp
  moreover have "split c r = takeWhile (\<lambda>x. x \<noteq> c) r #
      (case dropWhile (\<lambda>x. x \<noteq> c) r of [] \<Rightarrow> [] | y # r' \<Rightarrow> split c r')"
    by (rule split_shape)
  ultimately have "at (split c h) (Suc 0) = Some (takeWhile (\<lambda>x. x \<noteq> c) r)"
    by (simp add: at_def)
  then show ?thesis
    unfolding Cons by simp
qed

text \<open>
  A header has the bearer form with token \<open>t\<close> when it is \<open>Bearer\<close>, one blank and
  the non-empty, blank-free \<open>t\<close>, alone or followed by a blank and anything more.
\<close>

lemma takeWhile_until:
  "c \<notin> set t \<Longrightarrow> takeWhile (\<lambda>x. x \<noteq> c) (t @ c # r) = t"
  by (induction t) auto

lemma bearer_parts:
  assumes "t \<noteq> []" "CHR '' '' \<notin> set t" "r = [] \<or> hd r = CHR '' ''"
  shows "at (split (CHR '' '') (''Bearer '' @ t @ r)) 0 = Some ''Bearer''"
    and "at (split (CHR '' '') (''Bearer '' @ t @ r)) (Suc 0) = Some t"
proof -
  let ?p = "\<lambda>x. x \<noteq> CHR '' ''"
  have tw: "takeWhile ?p (t @ r) = t"
  proof (cases r)
    case Nil
    with assms(2) show ?thesis by auto
  next
    case (Cons y r')
    with assms(3) have "y = CHR '' ''" by simp
    with Cons assms(2) show ?thesis by (simp add: takeWhile_until)
  qed
  show "at (split (CHR '' '') (''Bearer '' @ t @ r)) 0 = Some ''Bearer''"
    by (simp add: split_first del: split.simps)
  show "at (split (CHR '' '') (''Bearer '' @ t @ r)) (Suc 0) = Some t"
    by (simp add: split_second tw del: split.simps)
qed

lemma bearer_header:
  assumes "t \<noteq> []" "CHR '' '' \<notin> set t" "r = [] \<or> hd r = CHR '' ''"
  shows "authMiddleware e (req\<lparr>authorization := Some (''Bearer '' @ t @ r)\<rparr>) =
           (case jwt_verify e t of
              Some decoded \<Rightarrow> Inr decoded
            | None \<Rightarrow> Inl (err 403 ''Invalid or expired token''))"
  using assms(1) bearer_parts [OF assms]
  by (simp add: authMiddleware_def falsy_def del: split.simps)

lemma malformed_header:
  assumes "h \<noteq> []"
    and "\<not> (\<exists>t r. t \<noteq> [] \<and> CHR '' '' \<notin> set t \<and> (r = [] \<or> hd r = CHR '' '')
               \<and> h = ''Bearer '' @ t @ r)"
  shows "authMiddleware e (req\<lparr>authorization := Some h\<rparr>) =
           Inl (err 401 ''Malformed Authorization header. Use: Bearer <token>'')"
proof -
  let ?p = "\<lambda>x. x \<noteq> CHR '' ''"
  let ?parts = "split (CHR '' '') h"
  have bad: "at ?parts 0 \<noteq> Some ''Bearer'' \<or> falsy (at ?parts (Suc 0))"
  proof (cases "takeWhile ?p h = ''Bearer''")
    case False
    then show ?thesis by (simp add: split_first)
  next
    case True
    have h: "h = ''Bearer'' @ dropWhile ?p h"
      using takeWhile_dropWhile_id [of ?p h] True by simp
    show ?thesis
    proof (cases "dropWhile ?p h")
      case Nil
      from split_second [of "CHR '' ''" h] have "at ?parts (Suc 0) = None"
        unfolding Nil by simp
      then show ?thesis by (simp add: falsy_def)
    next
      case (Cons y rest)
      then have "y = CHR '' ''"
        using hd_dropWhile [of ?p h] by auto
      with h Cons have form: "h = ''Bearer '' @ takeWhile ?p rest @ dropWhile ?p rest" by simp
      have blank_free: "CHR '' '' \<notin> set (takeWhile ?p rest)"
        by (auto dest: set_takeWhileD)
      have tail: "dropWhile ?p rest = [] \<or> hd (dropWhile ?p rest) = CHR '' ''"
        using hd_dropWhile [of ?p rest] by auto
      from assms(2) form blank_free tail have "takeWhile ?p rest = []" by blast
      moreover from split_second [of "CHR '' ''" h]
      have "at ?parts (Suc 0) = Some (takeWhile ?p rest)"
        unfolding Cons by simp
      ultimately show ?thesis by (simp add: falsy_def)
    qed
  qed
  show ?thesis
    using assms(1) bad by (auto simp: authMiddleware_def falsy_def Let_def simp del: split.simps)
qed

lemma missing_header:
  "authorization req = None \<or> authorization req = Some [] \<Longrightarrow>
     authMiddleware e req = Inl (err 401 ''No Authorization header provided'')"
  by (auto simp: authMiddleware_def falsy_def)

lemma authMiddleware_rejects:
  "authMiddleware e req = Inl r \<Longrightarrow> status r = 401 \<or> status r = 403"
  by (auto simp: authMiddleware_def Let_def split: if_splits option.splits)

lemma protected_guarded:
  "protected rt \<Longrightarrow> authMiddleware e req = Inl r \<Longrightarrow> app e d rt req = (r, d)"
  by (cases rt) (simp_all add: protected_def guarded_def)

text \<open>
  C1, as stated, fails: a well-formed bearer header whose token \<open>jwt.verify\<close> rejects
  is answered with status 403 by the guard's \<open>catch\<close> branch, not with 401.
\<close>

theorem expired_token_counterexample:
  "protected GetCredentials
   \<and> jwt_verify ex_env ''expired'' = None
   \<and> app ex_env ex_db GetCredentials (ex_req ''expired'' (ex_oid ''d001'') [] no_fields)
       = (err 403 ''Invalid or expired token'', ex_db)
   \<and> status (fst (app ex_env ex_db GetCredentials
                     (ex_req ''expired'' (ex_oid ''d001'') [] no_fields))) \<noteq> 401"
  by (simp add: protected_def guarded_def authMiddleware_def ex_req_def ex_env_def
        ex_verify_def falsy_def at_def)

text \<open>
  C1, amended. On every protected route the guard answers before the handler runs and
  the store is unchanged, for every header: with 401 when the \<open>Authorization\<close> header
  is absent or empty; with 401 when it does not have the bearer form, that is
  \<open>Bearer\<close>, one blank and a non-empty token without blanks, alone or followed by a
  blank and further text; and with 403 when it has the bearer form and verification of
  that token fails (bad signature, expired, not a token). When it has the bearer form
  and the token verifies, the guard lets the request through with the decoded payload,
  whatever follows the token. Whatever the guard answers has status 401 or 403.
\<close>

theorem auth_rejection_statuses:
  assumes "protected rt"
  shows "(authorization req = None \<or> authorization req = Some [] \<longrightarrow>
            app e d rt req = (err 401 ''No Authorization header provided'', d))
       \<and> (\<forall>h. authorization req = Some h \<and> h \<noteq> []
                \<and> \<not> (\<exists>t r. t \<noteq> [] \<and> CHR '' '' \<notin> set t \<and> (r = [] \<or> hd r = CHR '' '')
                           \<and> h = ''Bearer '' @ t @ r) \<longrightarrow>
            app e d rt req = (err 401 ''Malformed Authorization header. Use: Bearer <token>'', d))
       \<and> (\<forall>t r. authorization req = Some (''Bearer '' @ t @ r) \<and> t \<noteq> []
                \<and> CHR '' '' \<notin> set t \<and> (r = [] \<or> hd r = CHR '' '')
                \<and> jwt_verify e t = None \<longrightarrow>
            app e d rt req = (err 403 ''Invalid or expired token'', d))
       \<and> (\<forall>t r c. authorization req = Some (''Bearer '' @ t @ r) \<and> t \<noteq> []
                \<and> CHR '' '' \<notin> set t \<and> (r = [] \<or> hd r = CHR '' '')
                \<and> jwt_verify e t = Some c \<longrightarrow>
            authMiddleware e req = Inr c)
       \<and> (\<forall>r. authMiddleware e req = Inl r \<longrightarrow>
            app e d rt req = (r, d) \<and> (status r = 401 \<or> status r = 403))"
proof -
  have same: "req\<lparr>authorization := Some h\<rparr> = req" if "authorization req = Some h" for h
    using that by simp
  have a: "app e d rt req = (err 401 ''No Authorization header provided'', d)"
    if "authorization req = None \<or> authorization req = Some []"
    using protected_guarded [OF assms missing_header [OF that]] .
  have b: "app e d rt req = (err 401 ''Malformed Authorization header. Use: Bearer <token>'', d)"
    if "authorization req = Some h" "h \<noteq> []"
       "\<not> (\<exists>t r. t \<noteq> [] \<and> CHR '' '' \<notin> set t \<and> (r = [] \<or> hd r = CHR '' '')
               \<and> h = ''Bearer '' @ t @ r)" for h
    using protected_guarded [OF assms] malformed_header [OF that(2,3), of e req] same [OF that(1)]
    by simp
  have c: "app e d rt req = (err 403 ''Invalid or expired token'', d)"
    if "authorization req = Some (''Bearer '' @ t @ r)" "t \<noteq> []" "CHR '' '' \<notin> set t"
       "r = [] \<or> hd r = CHR '' ''" "jwt_verify e t = None" for t r
    using protected_guarded [OF assms] bearer_header [OF that(2,3,4), of e req] same [OF that(1)]
      that(5)
    by simp
  have p: "authMiddleware e req = Inr c"
    if "authorization req = Some (''Bearer '' @ t @ r)" "t \<noteq> []" "CHR '' '' \<notin> set t"
       "r = [] \<or> hd r = CHR '' ''" "jwt_verify e t = Some c" for t r c
    using bearer_header [OF that(2,3,4), of e req] same [OF that(1)] that(5)
    by simp
  have g: "app e d rt req = (r, d) \<and> (status r = 401 \<or> status r = 403)"
    if "authMiddleware e req = Inl r" for r
    using protected_guarded [OF assms that] authMiddleware_rejects [OF that] by simp
  have a': "authorization req = None \<or> authorization req = Some [] \<longrightarrow>
            app e d rt req = (err 401 ''No Authorization header provided'', d)"
    using a by simp
  have b': "\<forall>h. authorization req = Some h \<and> h \<noteq> []
                \<and> \<not> (\<exists>t r. t \<noteq> [] \<and> CHR '' '' \<notin> set t \<and> (r = [] \<or> hd r = CHR '' '')
                           \<and> h = ''Bearer '' @ t @ r) \<longrightarrow>
            app e d rt req = (err 401 ''Malformed Authorization header. Use: Bearer <token>'', d)"
  proof (intro allI impI, elim conjE)
    fix h
    assume "authorization req = Some h" "h \<noteq> []"
       "\<not> (\<exists>t r. t \<noteq> [] \<and> CHR '' '' \<notin> set t \<and> (r = [] \<or> hd r = CHR '' '')
               \<and> h = ''Bearer '' @ t @ r)"
    then show "app e d rt req
                 = (err 401 ''Malformed Authorization header. Use: Bearer <token>'', d)"
      by (rule b)
  qed
  have c': "\<forall>t r. authorization req = Some (''Bearer '' @ t @ r) \<and> t \<noteq> []
                \<and> CHR '' '' \<notin> set t \<and> (r = [] \<or> hd r = CHR '' '')
                \<and> jwt_verify e t = None \<longrightarrow>
            app e d rt req = (err 403 ''Invalid or expired token'', d)"
  proof (intro allI impI, elim conjE)
    fix t r
    assume "authorization req = Some (''Bearer '' @ t @ r)" "t \<noteq> []" "CHR '' '' \<notin> set t"
       "r = [] \<or> hd r = CHR '' ''" "jwt_verify e t = None"
    then show "app e d rt req = (err 403 ''Invalid or expired token'', d)"
      by (rule c)
  qed
  have p': "\<forall>t r c. authorization req = Some (''Bearer '' @ t @ r) \<and> t \<noteq> []
                \<and> CHR '' '' \<notin> set t \<and> (r = [] \<or> hd r = CHR '' '')
                \<and> jwt_verify e t = Some c \<longrightarrow>
            authMiddleware e req = Inr c"
  proof (intro allI impI, elim conjE)
    fix t r c
    assume "authorization req = Some (''Bearer '' @ t @ r)" "t \<noteq> []" "CHR '' '' \<notin> set t"
       "r = [] \<or> hd r = CHR '' ''" "jwt_verify e t = Some c"
    then show "authMiddleware e req = Inr c"
      by (rule p)
  qed
  have g': "\<forall>r. authMiddleware e req = Inl r \<longrightarrow>
            app e d rt req = (r, d) \<and> (status r = 401 \<or> status r = 403)"
    using g by simp
  show ?thesis
    by (intro conjI a' b' c' p' g')
qed
theorem auth_rejection_statuses_witness:
  "app ex_env ex_db PutCredential (req_with_header None)
      = (err 401 ''No Authorization header provided'', ex_db)
   \<and> app ex_env ex_db PutCredential (req_with_header (Some ''Token abc''))
      = (err 401 ''Malformed Authorization header. Use: Bearer <token>'', ex_db)
   \<and> app ex_env ex_db PutCredential (req_with_header (Some ''Bearer  tokM''))
      = (err 401 ''Malformed Authorization header. Use: Bearer <token>'', ex_db)
   \<and> app ex_env ex_db PutCredential (req_with_header (Some ''Bearer expired''))
      = (err 403 ''Invalid or expired token'', ex_db)
   \<and> app ex_env ex_db PutCredential (req_with_header (Some ''Bearer bad extra''))
      = (err 403 ''Invalid or expired token'', ex_db)
   \<and> authMiddleware ex_env (req_with_header (Some ''Bearer tokM extra'')) = Inr claims_manager"
proof -
  have p: "protected PutCredential" by (simp add: protected_def)
  have h: "authorization (req_with_header x) = x" for x
    by (simp add: req_with_header_def)
  note rule = auth_rejection_statuses [OF p, where e = ex_env and d = ex_db]
  have no_form1: "\<not> (\<exists>t r. t \<noteq> [] \<and> CHR '' '' \<notin> set t \<and> (r = [] \<or> hd r = CHR '' '')
                     \<and> ''Token abc'' = ''Bearer '' @ t @ r)"
    by simp
  have no_form2: "\<not> (\<exists>t r. t \<noteq> [] \<and> CHR '' '' \<notin> set t \<and> (r = [] \<or> hd r = CHR '' '')
                     \<and> ''Bearer  tokM'' = ''Bearer '' @ t @ r)"
    by (auto simp: Cons_eq_append_conv)
  have nv: "jwt_verify ex_env ''expired'' = None" "jwt_verify ex_env ''bad'' = None"
    and v: "jwt_verify ex_env ''tokM'' = Some claims_manager"
    by (simp_all add: ex_env_def ex_verify_def)
  have a: "app ex_env ex_db PutCredential (req_with_header None)
      = (err 401 ''No Authorization header provided'', ex_db)"
    using rule [of "req_with_header None", THEN conjunct1] by (simp add: h del: app.simps)
  have b1: "app ex_env ex_db PutCredential (req_with_header (Some ''Token abc''))
      = (err 401 ''Malformed Authorization header. Use: Bearer <token>'', ex_db)"
    using rule [of "req_with_header (Some ''Token abc'')", THEN conjunct2, THEN conjunct1,
                rule_format, of "''Token abc''"] no_form1
    by (simp add: h del: app.simps)
  have b2: "app ex_env ex_db PutCredential (req_with_header (Some ''Bearer  tokM''))
      = (err 401 ''Malformed Authorization header. Use: Bearer <token>'', ex_db)"
    using rule [of "req_with_header (Some ''Bearer  tokM'')", THEN conjunct2, THEN conjunct1,
                rule_format, of "''Bearer  tokM''"] no_form2
    by (simp only: h simp_thms list.simps not_False_eq_True)
  have c1: "app ex_env ex_db PutCredential (req_with_header (Some ''Bearer expired''))
      = (err 403 ''Invalid or expired token'', ex_db)"
    using rule [of "req_with_header (Some ''Bearer expired'')", THEN conjunct2, THEN conjunct2,
                THEN conjunct1, rule_format, of "''expired''" "[]"] nv
    by (simp add: h del: app.simps)
  have c2: "app ex_env ex_db PutCredential (req_with_header (Some ''Bearer bad extra''))
      = (err 403 ''Invalid or expired token'', ex_db)"
    using rule [of "req_with_header (Some ''Bearer bad extra'')", THEN conjunct2, THEN conjunct2,
                THEN conjunct1, rule_format, of "''bad''" "'' extra''"] nv
    by (simp add: h del: app.simps)
  have p1: "authMiddleware ex_env (req_with_header (Some ''Bearer tokM extra'')) = Inr claims_manager"
    using rule [of "req_with_header (Some ''Bearer tokM extra'')", THEN conjunct2,
                THEN conjunct2, THEN conjunct2, THEN conjunct1, rule_format,
                of "''tokM''" "'' extra''" claims_manager] v
    by (simp add: h del: app.simps)
  show ?thesis
    by (intro conjI a b1 b2 c1 c2 p1)
qed

section \<open>Assigning a user to a unit and division\<close>

lemma find_update_first:
  "find P xs = Some x \<Longrightarrow> P y \<Longrightarrow> find P (update_first P (\<lambda>_. y) xs) = Some y"
  by (induction xs) (auto split: if_splits)

lemma set_update_first:
  "set (update_first P f xs) \<subseteq> set xs \<union> f ` set xs"
  by (induction xs) auto

lemma divisions_id_None:
  "divisions_id e ds i = None \<longleftrightarrow> (\<forall>j. cast_oid e i = Some j \<longrightarrow> j \<notin> div_id ` set ds)"
  by (auto simp: divisions_id_def find_None_iff split: option.splits)

lemma divisions_id_Some:
  "divisions_id e ds i = Some x \<Longrightarrow> cast_oid e i = Some (div_id x) \<and> x \<in> set ds"
  by (auto simp: divisions_id_def find_Some_iff split: option.splits)

lemma OU_findById_id:
  "OU_findById e d i = Inr (Some u) \<Longrightarrow> cast_oid e i = Some (ou_id u) \<and> u \<in> set (ous d)"
  by (auto simp: OU_findById_def find_Some_iff split: option.splits)

lemma OU_findById_None:
  "OU_findById e d i = Inr None \<longleftrightarrow> (\<exists>k. cast_oid e i = Some k \<and> k \<notin> ou_id ` set (ous d))"
  by (auto simp: OU_findById_def find_None_iff split: option.splits)

lemma assign_user_steps:
  assumes cur: "getCurrentUser e d c = Inr (Some current)" and mgr: "role current \<noteq> ''normal''"
    and ids: "body req ''ouId'' = Some uid" "uid \<noteq> []"
             "body req ''divisionId'' = Some did" "did \<noteq> []"
  shows "assign_user e d c req =
    (case OU_findById e d uid of
       Inl z \<Rightarrow> (server_error, d)
     | Inr None \<Rightarrow> (err 404 ''OU not found'', d)
     | Inr (Some u) \<Rightarrow>
        (case divisions_id e (divisions u) did of
           None \<Rightarrow> (err 400 ''divisionId does not belong to the specified OU'', d)
         | Some x \<Rightarrow>
            (case User_findById e d (params_id req) of
               Inl z \<Rightarrow> (server_error, d)
             | Inr None \<Rightarrow> (err 404 ''User not found'', d)
             | Inr (Some t) \<Rightarrow>
                 (\<lparr>status = 200,
                   payload = JObj [(''message'', JStr ''User assigned''),
                                   (''user'', publicUser (t\<lparr>ou := Some (ou_id u),
                                                            division := Some (div_id x)\<rparr>))]\<rparr>,
                  User_save (t\<lparr>ou := Some (ou_id u), division := Some (div_id x)\<rparr>) d))))"
  using assms
  by (simp add: assign_user_def falsy_def Let_def split: option.splits sum.splits)

lemma assign_user_unchanged:
  "status (fst (assign_user e d c req)) \<noteq> 200 \<Longrightarrow> snd (assign_user e d c req) = d"
  by (auto simp: assign_user_def Let_def server_error_def split: option.splits sum.splits if_splits)

lemma assign_user_whole:
  assumes "\<forall>x \<in> set (users d). assignment_whole x"
  shows "\<forall>x \<in> set (users (snd (assign_user e d c req))). assignment_whole x"
proof -
  have upd: "\<forall>x \<in> set (users (User_save (t\<lparr>ou := Some a, division := Some b\<rparr>) d)). assignment_whole x"
    for t a b
    using assms set_update_first [of "\<lambda>x. user_id x = user_id t"
                                     "\<lambda>_. t\<lparr>ou := Some a, division := Some b\<rparr>" "users d"]
    by (auto simp: User_save_def assignment_whole_def)
  show ?thesis
    using assms upd
    by (simp add: assign_user_def Let_def split: option.splits sum.splits)
qed

lemma User_save_found:
  assumes "User_findById e d i = Inr (Some t)" "user_id t' = user_id t"
  shows "User_findById e (User_save t' d) i = Inr (Some t')"
proof -
  from User_findById_id [OF assms(1)] have k: "cast_oid e i = Some (user_id t)" by simp
  with assms(1) have "find (\<lambda>x. user_id x = user_id t') (users d) = Some t"
    by (simp add: User_findById_def assms(2))
  then have "find (\<lambda>x. user_id x = user_id t')
               (update_first (\<lambda>x. user_id x = user_id t') (\<lambda>_. t') (users d)) = Some t'"
    by (rule find_update_first) simp
  then show ?thesis
    by (simp add: User_findById_def User_save_def k assms(2))
qed

text \<open>
  C4, as stated, fails: where no unit has the given id the answer is not always 404. With
  the division id left out of the body the route answers 400 before it looks the unit up,
  and with a unit id that is not an object id the lookup throws and the answer is 500.
\<close>

theorem assign_missing_unit_counterexample:
  "ex_oid ''b009'' \<notin> ou_id ` set (ous ex_db)
   \<and> app ex_env ex_db AssignUser (ex_req ''tokM'' (ex_oid ''a003'') [] (body_ouId (ex_oid ''b009'')))
       = (err 400 ''ouId and divisionId required'', ex_db)
   \<and> ''xyz'' \<notin> ou_id ` set (ous ex_db)
   \<and> app ex_env ex_db AssignUser
         (ex_req ''tokM'' (ex_oid ''a003'') [] (body_assign ''xyz'' (ex_oid ''d001'')))
       = (server_error, ex_db)
   \<and> status (fst (app ex_env ex_db AssignUser
                     (ex_req ''tokM'' (ex_oid ''a003'') [] (body_ouId (ex_oid ''b009''))))) \<noteq> 404
   \<and> status (fst (app ex_env ex_db AssignUser
         (ex_req ''tokM'' (ex_oid ''a003'') [] (body_assign ''xyz'' (ex_oid ''d001''))))) \<noteq> 404"
proof -
  have none: "ex_oid ''b009'' \<notin> ou_id ` set (ous ex_db)" "''xyz'' \<notin> ou_id ` set (ous ex_db)"
    by (simp_all add: ex_db_def ou_news_def ex_oid_def)
  have a: "app ex_env ex_db AssignUser
             (ex_req ''tokM'' (ex_oid ''a003'') [] (body_ouId (ex_oid ''b009'')))
       = (err 400 ''ouId and divisionId required'', ex_db)"
    by (simp add: guarded_def ex_auth assign_user_def ex_current ex_users body_ouId_def falsy_def)
  have b: "app ex_env ex_db AssignUser
         (ex_req ''tokM'' (ex_oid ''a003'') [] (body_assign ''xyz'' (ex_oid ''d001'')))
       = (server_error, ex_db)"
    by (simp add: guarded_def ex_auth assign_user_def ex_current ex_users body_assign_def
          falsy_def OU_findById_def)
  show ?thesis
    unfolding a b using none by (simp add: server_error_def)
qed

text \<open>
  C4, amended. An assign call made by an authenticated user whose live role is not
  \<open>normal\<close>: if the body lacks the unit id or the division id, or either is empty, the
  answer is 400. If both are given and the unit id is a well-formed object id, then: if
  no unit has that id the answer is 404; if the unit exists and the division id is not
  the id of one of its divisions the answer is 400. Whenever the answer is not 200 the
  store, and so the target user's unit and division references, is unchanged; when the
  answer is 200 the target user is stored with both references set, to that unit and to
  a division of that unit. If every stored user had both references or neither before
  the call, that is so after it.
\<close>

theorem assign_all_or_nothing:
  assumes auth: "authMiddleware e req = Inr c"
    and cur: "getCurrentUser e d c = Inr (Some current)" and mgr: "role current \<noteq> ''normal''"
  shows "(falsy (body req ''ouId'') \<or> falsy (body req ''divisionId'') \<longrightarrow>
            app e d AssignUser req = (err 400 ''ouId and divisionId required'', d))
       \<and> (\<forall>uid did k. body req ''ouId'' = Some uid \<and> uid \<noteq> []
              \<and> body req ''divisionId'' = Some did \<and> did \<noteq> []
              \<and> cast_oid e uid = Some k \<longrightarrow>
            (k \<notin> ou_id ` set (ous d) \<longrightarrow>
               app e d AssignUser req = (err 404 ''OU not found'', d))
          \<and> (\<forall>u. OU_findById e d uid = Inr (Some u)
                  \<and> (\<forall>j. cast_oid e did = Some j \<longrightarrow> j \<notin> div_id ` set (divisions u)) \<longrightarrow>
               app e d AssignUser req =
                 (err 400 ''divisionId does not belong to the specified OU'', d)))
       \<and> (status (fst (app e d AssignUser req)) \<noteq> 200 \<longrightarrow> snd (app e d AssignUser req) = d)
       \<and> (status (fst (app e d AssignUser req)) = 200 \<longrightarrow>
            (\<exists>uid did u x t. body req ''ouId'' = Some uid \<and> body req ''divisionId'' = Some did
                 \<and> OU_findById e d uid = Inr (Some u)
                 \<and> x \<in> set (divisions u) \<and> cast_oid e did = Some (div_id x)
                 \<and> User_findById e d (params_id req) = Inr (Some t)
                 \<and> User_findById e (snd (app e d AssignUser req)) (params_id req)
                     = Inr (Some (t\<lparr>ou := Some (ou_id u), division := Some (div_id x)\<rparr>))))
       \<and> ((\<forall>x \<in> set (users d). assignment_whole x) \<longrightarrow>
            (\<forall>x \<in> set (users (snd (app e d AssignUser req))). assignment_whole x))"
proof -
  have run: "app e d AssignUser req = assign_user e d c req"
    using auth by (simp add: guarded_def)
  have a: "falsy (body req ''ouId'') \<or> falsy (body req ''divisionId'') \<longrightarrow>
            assign_user e d c req = (err 400 ''ouId and divisionId required'', d)"
    using cur mgr by (simp add: assign_user_def)
  have b: "\<forall>uid did k. body req ''ouId'' = Some uid \<and> uid \<noteq> []
              \<and> body req ''divisionId'' = Some did \<and> did \<noteq> []
              \<and> cast_oid e uid = Some k \<longrightarrow>
            (k \<notin> ou_id ` set (ous d) \<longrightarrow>
               assign_user e d c req = (err 404 ''OU not found'', d))
          \<and> (\<forall>u. OU_findById e d uid = Inr (Some u)
                  \<and> (\<forall>j. cast_oid e did = Some j \<longrightarrow> j \<notin> div_id ` set (divisions u)) \<longrightarrow>
               assign_user e d c req =
                 (err 400 ''divisionId does not belong to the specified OU'', d))"
  proof (intro allI impI, elim conjE)
    fix uid did k
    assume ids: "body req ''ouId'' = Some uid" "uid \<noteq> []"
                "body req ''divisionId'' = Some did" "did \<noteq> []"
      and k: "cast_oid e uid = Some k"
    note steps = assign_user_steps [OF cur mgr ids]
    have nf: "assign_user e d c req = (err 404 ''OU not found'', d)"
      if "k \<notin> ou_id ` set (ous d)"
    proof -
      from k that have "OU_findById e d uid = Inr None"
        unfolding OU_findById_None by blast
      then show ?thesis by (simp add: steps)
    qed
    have nd: "assign_user e d c req =
                (err 400 ''divisionId does not belong to the specified OU'', d)"
      if "OU_findById e d uid = Inr (Some u)"
         "\<forall>j. cast_oid e did = Some j \<longrightarrow> j \<notin> div_id ` set (divisions u)" for u
    proof -
      from that(2) have "divisions_id e (divisions u) did = None"
        unfolding divisions_id_None .
      with that(1) show ?thesis by (simp add: steps)
    qed
    from nf nd show "(k \<notin> ou_id ` set (ous d) \<longrightarrow>
               assign_user e d c req = (err 404 ''OU not found'', d))
          \<and> (\<forall>u. OU_findById e d uid = Inr (Some u)
                  \<and> (\<forall>j. cast_oid e did = Some j \<longrightarrow> j \<notin> div_id ` set (divisions u)) \<longrightarrow>
               assign_user e d c req =
                 (err 400 ''divisionId does not belong to the specified OU'', d))"
      by blast
  qed
  have c: "status (fst (assign_user e d c req)) \<noteq> 200 \<longrightarrow> snd (assign_user e d c req) = d"
    using assign_user_unchanged by blast
  have s: "status (fst (assign_user e d c req)) = 200 \<longrightarrow>
            (\<exists>uid did u x t. body req ''ouId'' = Some uid \<and> body req ''divisionId'' = Some did
                 \<and> OU_findById e d uid = Inr (Some u)
                 \<and> x \<in> set (divisions u) \<and> cast_oid e did = Some (div_id x)
                 \<and> User_findById e d (params_id req) = Inr (Some t)
                 \<and> User_findById e (snd (assign_user e d c req)) (params_id req)
                     = Inr (Some (t\<lparr>ou := Some (ou_id u), division := Some (div_id x)\<rparr>)))"
  proof
    assume ok: "status (fst (assign_user e d c req)) = 200"
    have given: "\<not> falsy (body req ''ouId'')" "\<not> falsy (body req ''divisionId'')"
      using ok a by auto
    then obtain uid did where ids: "body req ''ouId'' = Some uid" "uid \<noteq> []"
                "body req ''divisionId'' = Some did" "did \<noteq> []"
      by (auto simp: falsy_def)
    note steps = assign_user_steps [OF cur mgr ids]
    from ok obtain u where u: "OU_findById e d uid = Inr (Some u)"
      by (cases "OU_findById e d uid")
         (auto simp: steps server_error_def split: option.splits)
    from ok u obtain x where x: "divisions_id e (divisions u) did = Some x"
      by (cases "divisions_id e (divisions u) did") (simp_all add: steps)
    from ok u x obtain t where t: "User_findById e d (params_id req) = Inr (Some t)"
      by (cases "User_findById e d (params_id req)")
         (auto simp: steps server_error_def split: option.splits)
    let ?t' = "t\<lparr>ou := Some (ou_id u), division := Some (div_id x)\<rparr>"
    have res: "snd (assign_user e d c req) = User_save ?t' d"
      by (simp add: steps u x t)
    have "User_findById e (User_save ?t' d) (params_id req) = Inr (Some ?t')"
      by (rule User_save_found [OF t]) simp
    with res have after: "User_findById e (snd (assign_user e d c req)) (params_id req)
                            = Inr (Some ?t')"
      by simp
    from ids(1,3) u divisions_id_Some [OF x] t after
    show "\<exists>uid did u x t. body req ''ouId'' = Some uid \<and> body req ''divisionId'' = Some did
                 \<and> OU_findById e d uid = Inr (Some u)
                 \<and> x \<in> set (divisions u) \<and> cast_oid e did = Some (div_id x)
                 \<and> User_findById e d (params_id req) = Inr (Some t)
                 \<and> User_findById e (snd (assign_user e d c req)) (params_id req)
                     = Inr (Some (t\<lparr>ou := Some (ou_id u), division := Some (div_id x)\<rparr>))"
      by blast
  qed
  have w: "(\<forall>x \<in> set (users d). assignment_whole x) \<longrightarrow>
            (\<forall>x \<in> set (users (snd (assign_user e d c req))). assignment_whole x)"
    using assign_user_whole by blast
  show ?thesis
    unfolding run by (intro conjI a b c s w)
qed
lemma ex_ou_lookup:
  "OU_findById ex_env ex_db (ex_oid ''b001'') = Inr (Some ou_news)"
  "ous ex_db = [ou_news]"
  "ou_id ou_news = ex_oid ''b001''"
  "divisions ou_news = [div_it, div_finance]"
  "div_id div_it = ex_oid ''d001''" "div_id div_finance = ex_oid ''d002''"
  by (simp_all add: OU_findById_def ex_db_def ou_news_def div_it_def div_finance_def)

lemma ex_db_whole: "\<forall>x \<in> set (users ex_db). assignment_whole x"
  by (simp add: ex_db_def assignment_whole_def user_normal_def user_manager_def user_admin_def)

theorem assign_all_or_nothing_witness:
  "app ex_env ex_db AssignUser (ex_req ''tokM'' (ex_oid ''a003'') [] (body_ouId (ex_oid ''b001'')))
     = (err 400 ''ouId and divisionId required'', ex_db)
   \<and> app ex_env ex_db AssignUser
        (ex_req ''tokM'' (ex_oid ''a003'') [] (body_assign (ex_oid ''b009'') (ex_oid ''d001'')))
     = (err 404 ''OU not found'', ex_db)
   \<and> app ex_env ex_db AssignUser
        (ex_req ''tokM'' (ex_oid ''a003'') [] (body_assign (ex_oid ''b001'') (ex_oid ''d009'')))
     = (err 400 ''divisionId does not belong to the specified OU'', ex_db)
   \<and> list_all assignment_whole
         (users (snd (app ex_env ex_db AssignUser
            (ex_req ''tokM'' (ex_oid ''a003'') [] (body_assign (ex_oid ''b001'') (ex_oid ''d002''))))))
   \<and> User_findById ex_env
        (snd (app ex_env ex_db AssignUser
           (ex_req ''tokM'' (ex_oid ''a003'') [] (body_assign (ex_oid ''b001'') (ex_oid ''d002'')))))
        (ex_oid ''a003'')
       = Inr (Some (user_admin\<lparr>ou := Some (ex_oid ''b001''), division := Some (ex_oid ''d002'')\<rparr>))"
proof -
  have m: "role user_manager \<noteq> ''normal''" by (simp add: ex_users)
  note rule = assign_all_or_nothing [OF ex_auth(2) ex_current(2) m]
  let ?r0 = "ex_req ''tokM'' (ex_oid ''a003'') [] (body_ouId (ex_oid ''b001''))"
  let ?r1 = "ex_req ''tokM'' (ex_oid ''a003'') [] (body_assign (ex_oid ''b009'') (ex_oid ''d001''))"
  let ?r2 = "ex_req ''tokM'' (ex_oid ''a003'') [] (body_assign (ex_oid ''b001'') (ex_oid ''d009''))"
  let ?r3 = "ex_req ''tokM'' (ex_oid ''a003'') [] (body_assign (ex_oid ''b001'') (ex_oid ''d002''))"
  have a: "app ex_env ex_db AssignUser ?r0 = (err 400 ''ouId and divisionId required'', ex_db)"
    using rule [where i1 = "ex_oid ''a003''" and ci1 = "[]" and b1 = "body_ouId (ex_oid ''b001'')",
                THEN conjunct1]
    by (simp add: body_ouId_def falsy_def del: app.simps)
  have b: "app ex_env ex_db AssignUser ?r1 = (err 404 ''OU not found'', ex_db)"
    using rule [where i1 = "ex_oid ''a003''" and ci1 = "[]"
                  and b1 = "body_assign (ex_oid ''b009'') (ex_oid ''d001'')",
                THEN conjunct2, THEN conjunct1, rule_format,
                of "ex_oid ''b009''" "ex_oid ''d001''" "ex_oid ''b009''", THEN conjunct1]
    by (simp add: body_assign_def ex_ou_lookup del: app.simps)
  have c: "app ex_env ex_db AssignUser ?r2
             = (err 400 ''divisionId does not belong to the specified OU'', ex_db)"
    using rule [where i1 = "ex_oid ''a003''" and ci1 = "[]"
                  and b1 = "body_assign (ex_oid ''b001'') (ex_oid ''d009'')",
                THEN conjunct2, THEN conjunct1, rule_format,
                of "ex_oid ''b001''" "ex_oid ''d009''" "ex_oid ''b001''", THEN conjunct2,
                rule_format, of ou_news]
    by (simp add: body_assign_def ex_ou_lookup del: app.simps)
  have ok: "status (fst (app ex_env ex_db AssignUser ?r3)) = 200"
    by (simp add: guarded_def ex_auth assign_user_def ex_current ex_users body_assign_def
          falsy_def ex_ou_lookup divisions_id_def ex_find_user Let_def)
  have w: "list_all assignment_whole (users (snd (app ex_env ex_db AssignUser ?r3)))"
    using rule [where i1 = "ex_oid ''a003''" and ci1 = "[]"
                  and b1 = "body_assign (ex_oid ''b001'') (ex_oid ''d002'')",
                THEN conjunct2, THEN conjunct2, THEN conjunct2, THEN conjunct2] ex_db_whole
    by (simp add: list_all_iff del: app.simps)
  from rule [where i1 = "ex_oid ''a003''" and ci1 = "[]"
               and b1 = "body_assign (ex_oid ''b001'') (ex_oid ''d002'')",
             THEN conjunct2, THEN conjunct2, THEN conjunct2, THEN conjunct1] ok
  obtain uid did u x t where
    ids: "body ?r3 ''ouId'' = Some uid" "body ?r3 ''divisionId'' = Some did"
    and u: "OU_findById ex_env ex_db uid = Inr (Some u)"
    and x: "x \<in> set (divisions u)" "cast_oid ex_env did = Some (div_id x)"
    and t: "User_findById ex_env ex_db (params_id ?r3) = Inr (Some t)"
    and after: "User_findById ex_env (snd (app ex_env ex_db AssignUser ?r3)) (params_id ?r3)
                  = Inr (Some (t\<lparr>ou := Some (ou_id u), division := Some (div_id x)\<rparr>))"
    by blast
  from ids have "uid = ex_oid ''b001''" "did = ex_oid ''d002''"
    by (simp_all add: body_assign_def)
  with u x have "u = ou_news" "div_id x = ex_oid ''d002''"
    by (simp_all add: ex_ou_lookup)
  moreover from t have "t = user_admin" by (simp add: ex_find_user)
  ultimately have s: "User_findById ex_env (snd (app ex_env ex_db AssignUser ?r3)) (ex_oid ''a003'')
       = Inr (Some (user_admin\<lparr>ou := Some (ex_oid ''b001''), division := Some (ex_oid ''d002'')\<rparr>))"
    using after by (simp add: ex_ou_lookup del: app.simps)
  show ?thesis
    by (intro conjI a b c w s)
qed

section \<open>Updating a credential\<close>

lemma find_update_first_by:
  "find P xs = Some x \<Longrightarrow> Q x \<Longrightarrow> P y \<Longrightarrow> find P (update_first Q (\<lambda>_. y) xs) = Some y"
  by (induction xs) (auto split: if_splits)

lemma update_first_nth:
  "find P xs = Some x \<Longrightarrow>
     \<exists>i<length xs. xs ! i = x \<and> (\<forall>j<i. \<not> P (xs ! j)) \<and> update_first P f xs = xs[i := f x]"
proof (induction xs)
  case Nil
  then show ?case by simp
next
  case (Cons a xs)
  show ?case
  proof (cases "P a")
    case True
    with Cons.prems have "a = x" by simp
    with True show ?thesis by (intro exI [of _ 0]) simp
  next
    case False
    with Cons.prems have "find P xs = Some x" by simp
    from Cons.IH [OF this] obtain i where
      i: "i < length xs" "xs ! i = x" "\<forall>j<i. \<not> P (xs ! j)" "update_first P f xs = xs[i := f x]"
      by blast
    have "\<forall>j<Suc i. \<not> P ((a # xs) ! j)"
      using False i(3) by (auto simp: less_Suc_eq_0_disj)
    with i False show ?thesis
      by (intro exI [of _ "Suc i"]) simp
  qed
qed

lemma apply_update_fields:
  "cred_id (apply_update b x) = cred_id x"
  "system (apply_update b x) = (case b ''system'' of None \<Rightarrow> system x | Some v \<Rightarrow> v)"
  "username (apply_update b x) = (case b ''username'' of None \<Rightarrow> username x | Some v \<Rightarrow> v)"
  "password (apply_update b x) = (case b ''password'' of None \<Rightarrow> password x | Some v \<Rightarrow> v)"
  by (simp_all add: apply_update_def split: option.splits)

lemma put_credential_ok:
  assumes "status (fst (put_credential e d c req)) = 200"
  shows "\<exists>u x cr. OU_findOne_division e d (params_id req) = Inr (Some u)
           \<and> divisions_id e (divisions u) (params_id req) = Some x
           \<and> credentials_id e (credentials x) (params_credId req) = Some cr
           \<and> put_credential e d c req =
               (\<lparr>status = 200,
                 payload = JObj [(''message'', JStr ''Credential updated''),
                                 (''credential'', credential_json (apply_update (body req) cr))]\<rparr>,
                OU_save (u\<lparr>divisions :=
                   update_first (\<lambda>y. div_id y = div_id x)
                     (\<lambda>_. x\<lparr>credentials :=
                        update_first (\<lambda>y. cred_id y = cred_id cr)
                          (\<lambda>_. apply_update (body req) cr) (credentials x)\<rparr>)
                     (divisions u)\<rparr>) d)"
  using assms
  by (auto simp: put_credential_def server_error_def Let_def
           split: option.splits sum.splits if_splits)

lemma division_credentials_after_save:
  assumes u: "OU_findOne_division e d i = Inr (Some u)"
    and x: "divisions_id e (divisions u) i = Some x"
  shows "division_credentials e
           (OU_save (u\<lparr>divisions :=
              update_first (\<lambda>y. div_id y = div_id x) (\<lambda>_. x\<lparr>credentials := cs'\<rparr>)
                (divisions u)\<rparr>) d) i
         = Some cs'"
proof -
  let ?x' = "x\<lparr>credentials := cs'\<rparr>"
  let ?ds' = "update_first (\<lambda>y. div_id y = div_id x) (\<lambda>_. ?x') (divisions u)"
  let ?u' = "u\<lparr>divisions := ?ds'\<rparr>"
  from divisions_id_Some [OF x] have k: "cast_oid e i = Some (div_id x)" by simp
  from x k have fx: "find (\<lambda>y. div_id y = div_id x) (divisions u) = Some x"
    by (simp add: divisions_id_def)
  have fin: "find (\<lambda>y. div_id y = div_id x) ?ds' = Some ?x'"
    by (rule find_update_first [OF fx]) simp
  then have inner: "divisions_id e ?ds' i = Some ?x'"
    by (simp add: divisions_id_def k)
  from u k have fu: "find (\<lambda>z. find (\<lambda>y. div_id y = div_id x) (divisions z) \<noteq> None) (ous d)
                       = Some u"
    by (simp add: OU_findOne_division_def)
  have "find (\<lambda>z. find (\<lambda>y. div_id y = div_id x) (divisions z) \<noteq> None)
          (update_first (\<lambda>z. ou_id z = ou_id ?u') (\<lambda>_. ?u') (ous d)) = Some ?u'"
    by (rule find_update_first_by [OF fu]) (simp_all add: fin)
  then have outer: "OU_findOne_division e (OU_save ?u' d) i = Inr (Some ?u')"
    by (simp add: OU_findOne_division_def OU_save_def k)
  show ?thesis
    by (simp add: division_credentials_def outer inner)
qed

text \<open>
  C6. When the credential update route answers 200, the credential list stored for the
  division is the list it was before with one position changed: the first credential
  whose id is the one in the path. That credential keeps its id; each of \<open>system\<close>,
  \<open>username\<close> and \<open>password\<close> takes the value the body supplies under that key
  and keeps its value when the body has no such key. All other credentials of the list,
  and the users, are as before, and the answer carries the updated credential.
\<close>

theorem update_replaces_supplied_fields:
  assumes auth: "authMiddleware e req = Inr c"
    and ok: "status (fst (app e d PutCredential req)) = 200"
  shows "(\<exists>cs i. division_credentials e d (params_id req) = Some cs
            \<and> i < length cs
            \<and> cast_oid e (params_credId req) = Some (cred_id (cs ! i))
            \<and> (\<forall>j<i. cred_id (cs ! j) \<noteq> cred_id (cs ! i))
            \<and> division_credentials e (snd (app e d PutCredential req)) (params_id req)
                = Some (cs[i := apply_update (body req) (cs ! i)])
            \<and> jget ''credential'' (payload (fst (app e d PutCredential req)))
                = Some (credential_json (apply_update (body req) (cs ! i))))
       \<and> (\<forall>x. cred_id (apply_update (body req) x) = cred_id x
            \<and> system (apply_update (body req) x)
                = (case body req ''system'' of None \<Rightarrow> system x | Some v \<Rightarrow> v)
            \<and> username (apply_update (body req) x)
                = (case body req ''username'' of None \<Rightarrow> username x | Some v \<Rightarrow> v)
            \<and> password (apply_update (body req) x)
                = (case body req ''password'' of None \<Rightarrow> password x | Some v \<Rightarrow> v))
       \<and> users (snd (app e d PutCredential req)) = users d"
proof -
  have run: "app e d PutCredential req = put_credential e d c req"
    using auth by (simp add: guarded_def)
  from ok run have "status (fst (put_credential e d c req)) = 200" by simp
  from put_credential_ok [OF this] obtain u x cr where
    u: "OU_findOne_division e d (params_id req) = Inr (Some u)"
    and x: "divisions_id e (divisions u) (params_id req) = Some x"
    and cr: "credentials_id e (credentials x) (params_credId req) = Some cr"
    and res: "put_credential e d c req =
               (\<lparr>status = 200,
                 payload = JObj [(''message'', JStr ''Credential updated''),
                                 (''credential'', credential_json (apply_update (body req) cr))]\<rparr>,
                OU_save (u\<lparr>divisions :=
                   update_first (\<lambda>y. div_id y = div_id x)
                     (\<lambda>_. x\<lparr>credentials :=
                        update_first (\<lambda>y. cred_id y = cred_id cr)
                          (\<lambda>_. apply_update (body req) cr) (credentials x)\<rparr>)
                     (divisions u)\<rparr>) d)"
    by blast
  let ?cs = "credentials x"
  have before: "division_credentials e d (params_id req) = Some ?cs"
    by (simp add: division_credentials_def u x)
  from cr have kc: "cast_oid e (params_credId req) = Some (cred_id cr)"
    by (auto simp: credentials_id_def find_Some_iff split: option.splits)
  with cr have "find (\<lambda>y. cred_id y = cred_id cr) ?cs = Some cr"
    by (simp add: credentials_id_def)
  from update_first_nth [OF this, of "\<lambda>_. apply_update (body req) cr"] obtain i where
    i: "i < length ?cs" "?cs ! i = cr" "\<forall>j<i. cred_id (?cs ! j) \<noteq> cred_id cr"
       "update_first (\<lambda>y. cred_id y = cred_id cr) (\<lambda>_. apply_update (body req) cr) ?cs
          = ?cs[i := apply_update (body req) cr]"
    by blast
  have after: "division_credentials e (snd (put_credential e d c req)) (params_id req)
                 = Some (?cs[i := apply_update (body req) (?cs ! i)])"
    by (simp add: res division_credentials_after_save [OF u x] i(2,4))
  have shown: "jget ''credential'' (payload (fst (put_credential e d c req)))
                 = Some (credential_json (apply_update (body req) (?cs ! i)))"
    by (simp add: res i(2))
  have list: "\<exists>cs i. division_credentials e d (params_id req) = Some cs
            \<and> i < length cs
            \<and> cast_oid e (params_credId req) = Some (cred_id (cs ! i))
            \<and> (\<forall>j<i. cred_id (cs ! j) \<noteq> cred_id (cs ! i))
            \<and> division_credentials e (snd (put_credential e d c req)) (params_id req)
                = Some (cs[i := apply_update (body req) (cs ! i)])
            \<and> jget ''credential'' (payload (fst (put_credential e d c req)))
                = Some (credential_json (apply_update (body req) (cs ! i)))"
    using before i(1) kc i(3) after shown unfolding i(2) [symmetric] by blast
  have frame: "users (snd (put_credential e d c req)) = users d"
    by (simp add: res OU_save_def)
  from list apply_update_fields frame show ?thesis
    unfolding run by blast
qed

lemma ex_d001_lookup:
  "OU_findOne_division ex_env ex_db (ex_oid ''d001'') = Inr (Some ou_news)"
  "divisions_id ex_env (divisions ou_news) (ex_oid ''d001'') = Some div_it"
  "credentials_id ex_env (credentials div_it) (ex_oid ''c001'') = Some cred_wiki"
  by (simp_all add: OU_findOne_division_def divisions_id_def credentials_id_def ex_db_def
        ou_news_def div_it_def cred_wiki_def)

lemma ex_d001_credentials:
  "division_credentials ex_env ex_db (ex_oid ''d001'') = Some [cred_wiki, cred_mail]"
  by (simp add: division_credentials_def ex_d001_lookup) (simp add: div_it_def)

theorem update_replaces_supplied_fields_witness:
  "division_credentials ex_env
     (snd (app ex_env ex_db PutCredential
             (ex_req ''tokM'' (ex_oid ''d001'') (ex_oid ''c001'') (body_password ''new''))))
     (ex_oid ''d001'')
   = Some [cred_wiki\<lparr>password := ''new''\<rparr>, cred_mail]"
proof -
  let ?req = "ex_req ''tokM'' (ex_oid ''d001'') (ex_oid ''c001'') (body_password ''new'')"
  have ok: "status (fst (app ex_env ex_db PutCredential ?req)) = 200"
    by (simp add: guarded_def ex_auth put_credential_def ex_current ex_users Let_def
          ex_d001_lookup)
  from update_replaces_supplied_fields [OF ex_auth(2) ok]
  obtain cs i where
    cs: "division_credentials ex_env ex_db (ex_oid ''d001'') = Some cs"
    and i: "i < length cs" "cast_oid ex_env (ex_oid ''c001'') = Some (cred_id (cs ! i))"
    and after: "division_credentials ex_env (snd (app ex_env ex_db PutCredential ?req))
                  (ex_oid ''d001'')
                  = Some (cs[i := apply_update (body_password ''new'') (cs ! i)])"
    by (auto simp del: app.simps)
  from cs have cs_eq: "cs = [cred_wiki, cred_mail]"
    by (simp add: ex_d001_credentials)
  have "i = 0"
    using i by (cases i) (simp_all add: cs_eq cred_mail_def)
  moreover have "apply_update (body_password ''new'') cred_wiki = cred_wiki\<lparr>password := ''new''\<rparr>"
    by (simp add: apply_update_def body_password_def)
  ultimately show ?thesis
    using after by (simp add: cs_eq del: app.simps)
qed

section \<open>What a response shows of a user\<close>

lemma keys_err [simp]: "json_keys (payload (err n m)) = {''error''}"
  by (simp add: err_def)

lemma keys_ref_json [simp]: "json_keys (ref_json r) = {}"
  by (simp add: ref_json_def split: option.splits)

lemma keys_publicUser:
  "json_keys (publicUser u) = {''id'', ''name'', ''email'', ''role'', ''ou'', ''division''}"
  by (auto simp: publicUser_def)

lemma keys_listed_user:
  "json_keys (listed_user u) = {''id'', ''name'', ''email'', ''role'', ''ou'', ''division''}"
  by (auto simp: listed_user_def split: option.splits)

lemma keys_credential_json:
  "json_keys (credential_json x) = {''_id'', ''system'', ''username'', ''password''}"
  by (auto simp: credential_json_def)

lemma no_hash_register: "''passwordHash'' \<notin> json_keys (payload (fst (register e d req)))"
  by (simp add: register_def Let_def keys_publicUser)

lemma no_hash_login: "''passwordHash'' \<notin> json_keys (payload (fst (login e d req)))"
  by (simp add: login_def Let_def server_error_def keys_publicUser split: option.splits)

lemma no_hash_list_divisions: "''passwordHash'' \<notin> json_keys (payload (fst (list_divisions d)))"
  by (simp add: list_divisions_def structure_items_def)

lemma no_hash_get_credentials:
  "''passwordHash'' \<notin> json_keys (payload (fst (get_credentials e d c req)))"
  by (simp add: get_credentials_def ensureDivisionAccess_def Let_def server_error_def
        keys_credential_json split: option.splits sum.splits)

lemma no_hash_post_credentials:
  "''passwordHash'' \<notin> json_keys (payload (fst (post_credentials e d c req)))"
  by (simp add: post_credentials_def ensureDivisionAccess_def Let_def server_error_def
        keys_credential_json split: option.splits sum.splits)

lemma no_hash_put_credential:
  "''passwordHash'' \<notin> json_keys (payload (fst (put_credential e d c req)))"
  by (simp add: put_credential_def Let_def server_error_def keys_credential_json
           split: option.splits sum.splits)

lemma no_hash_get_users: "''passwordHash'' \<notin> json_keys (payload (fst (get_users e d c)))"
  by (simp add: get_users_def server_error_def keys_listed_user split: option.splits sum.splits)

lemma no_hash_assign_user:
  "''passwordHash'' \<notin> json_keys (payload (fst (assign_user e d c req)))"
  by (simp add: assign_user_def Let_def server_error_def keys_publicUser
           split: option.splits sum.splits)

lemma no_hash_unassign_user:
  "''passwordHash'' \<notin> json_keys (payload (fst (unassign_user e d c req)))"
  by (simp add: unassign_user_def Let_def server_error_def keys_publicUser
           split: option.splits sum.splits)

lemma no_hash_change_role:
  "''passwordHash'' \<notin> json_keys (payload (fst (change_role e d c req)))"
  by (simp add: change_role_def Let_def server_error_def keys_publicUser
           split: option.splits sum.splits)

lemma no_hash_guarded:
  assumes "\<And>c. ''passwordHash'' \<notin> json_keys (payload (fst (h c)))"
  shows "''passwordHash'' \<notin> json_keys (payload (fst (guarded e d req h)))"
proof (cases "authMiddleware e req")
  case (Inl r)
  then have "json_keys (payload r) = {''error''}"
    by (auto simp: authMiddleware_def Let_def split: if_splits option.splits)
  with Inl show ?thesis by (simp add: guarded_def)
next
  case (Inr c)
  with assms show ?thesis by (simp add: guarded_def)
qed

lemma no_hash_app: "''passwordHash'' \<notin> json_keys (payload (fst (app e d rt req)))"
proof (cases rt)
  case Register
  then show ?thesis by (simp add: no_hash_register)
next
  case Login
  then show ?thesis by (simp add: no_hash_login)
next
  case DevDivisions
  then show ?thesis by (simp add: no_hash_guarded no_hash_list_divisions)
next
  case StructureOus
  then show ?thesis by (simp add: no_hash_guarded no_hash_list_divisions)
next
  case GetCredentials
  then show ?thesis by (simp add: no_hash_guarded no_hash_get_credentials)
next
  case PostCredentials
  then show ?thesis by (simp add: no_hash_guarded no_hash_post_credentials)
next
  case PutCredential
  then show ?thesis by (simp add: no_hash_guarded no_hash_put_credential)
next
  case GetUsers
  then show ?thesis by (simp add: no_hash_guarded no_hash_get_users)
next
  case AssignUser
  then show ?thesis by (simp add: no_hash_guarded no_hash_assign_user)
next
  case UnassignUser
  then show ?thesis by (simp add: no_hash_guarded no_hash_unassign_user)
next
  case ChangeRole
  then show ?thesis by (simp add: no_hash_guarded no_hash_change_role)
next
  case Health
  then show ?thesis by simp
qed

lemma update_first_mem:
  "find P xs = Some x \<Longrightarrow> y \<in> set (update_first P (\<lambda>_. y) xs)"
  by (induction xs) (auto split: if_splits)

lemma User_save_mem:
  assumes "User_findById e d i = Inr (Some t)" "user_id t' = user_id t"
  shows "t' \<in> set (users (User_save t' d))"
proof -
  from User_findById_id [OF assms(1)] have "cast_oid e i = Some (user_id t)" by simp
  with assms have "find (\<lambda>x. user_id x = user_id t') (users d) = Some t"
    by (simp add: User_findById_def)
  then show ?thesis
    by (simp add: User_save_def update_first_mem)
qed

lemma jget_err [simp]: "jget k (payload (err n m)) = (if k = ''error'' then Some (JStr m) else None)"
  by (simp add: err_def)

lemma user_field_register:
  "jget ''user'' (payload (fst (register e d req))) = Some j \<Longrightarrow>
     \<exists>u \<in> set (users (snd (register e d req))). j = publicUser u"
  by (auto simp: register_def Let_def User_insert_def split: if_splits)

lemma user_field_login:
  "jget ''user'' (payload (fst (login e d req))) = Some j \<Longrightarrow>
     \<exists>u \<in> set (users (snd (login e d req))). j = publicUser u"
  by (auto simp: login_def Let_def server_error_def User_findOne_email_def find_Some_iff
           split: option.splits if_splits)

lemma user_field_assign_user:
  "jget ''user'' (payload (fst (assign_user e d c req))) = Some j \<Longrightarrow>
     \<exists>u \<in> set (users (snd (assign_user e d c req))). j = publicUser u"
  by (auto simp: assign_user_def Let_def server_error_def
           split: option.splits sum.splits if_splits
           intro!: bexI [OF _ User_save_mem])

lemma user_field_unassign_user:
  "jget ''user'' (payload (fst (unassign_user e d c req))) = Some j \<Longrightarrow>
     \<exists>u \<in> set (users (snd (unassign_user e d c req))). j = publicUser u"
  by (auto simp: unassign_user_def Let_def server_error_def
           split: option.splits sum.splits if_splits
           intro!: bexI [OF _ User_save_mem])

lemma user_field_change_role:
  "jget ''user'' (payload (fst (change_role e d c req))) = Some j \<Longrightarrow>
     \<exists>u \<in> set (users (snd (change_role e d c req))). j = publicUser u"
  by (auto simp: change_role_def Let_def server_error_def
           split: option.splits sum.splits if_splits
           intro!: bexI [OF _ User_save_mem])

lemma user_field_guarded:
  assumes "\<And>c. jget ''user'' (payload (fst (h c))) = Some j \<Longrightarrow>
                \<exists>u \<in> set (users (snd (h c))). j = publicUser u"
    and "jget ''user'' (payload (fst (guarded e d req h))) = Some j"
  shows "\<exists>u \<in> set (users (snd (guarded e d req h))). j = publicUser u"
proof (cases "authMiddleware e req")
  case (Inl r)
  then have "jget ''user'' (payload r) = None"
    by (auto simp: authMiddleware_def Let_def split: if_splits option.splits)
  with Inl assms(2) show ?thesis by (simp add: guarded_def)
next
  case (Inr c)
  with assms show ?thesis by (simp add: guarded_def)
qed

lemma items_field_get_users:
  "jget ''items'' (payload (fst (get_users e d c))) = Some j \<Longrightarrow>
     j = JArr (map listed_user (users d))"
  by (auto simp: get_users_def server_error_def split: option.splits sum.splits if_splits)

lemma items_field_guarded_get_users:
  assumes "jget ''items'' (payload (fst (guarded e d req (\<lambda>c. get_users e d c)))) = Some j"
  shows "j = JArr (map listed_user (users d))"
proof (cases "authMiddleware e req")
  case (Inl r)
  then have "jget ''items'' (payload r) = None"
    by (auto simp: authMiddleware_def Let_def split: if_splits option.splits)
  with Inl assms show ?thesis by (simp add: guarded_def)
next
  case (Inr c)
  with assms items_field_get_users show ?thesis by (simp add: guarded_def)
qed

text \<open>
  The responses do not depend on the stored hashes: replacing the hash of every stored
  user by another string changes no response, except through the answer of
  \<open>bcrypt.compare\<close> at login.
\<close>

lemma find_map_same:
  "(\<And>x. P (f x) = P x) \<Longrightarrow> find P (map f xs) = map_option f (find P xs)"
  by (induction xs) auto

lemma rehash_user_sel [simp]:
  "user_id (rehash_user g u) = user_id u" "name (rehash_user g u) = name u"
  "email (rehash_user g u) = email u" "role (rehash_user g u) = role u"
  "ou (rehash_user g u) = ou u" "division (rehash_user g u) = division u"
  "passwordHash (rehash_user g u) = g u"
  by (simp_all add: rehash_user_def)

lemma rehash_sel [simp]:
  "ous (rehash g d) = ous d" "users (rehash g d) = map (rehash_user g) (users d)"
  by (simp_all add: rehash_def)

lemma rehash_publicUser [simp]:
  "publicUser (rehash_user g u) = publicUser u"
  "publicUser (rehash_user g u\<lparr>ou := a, division := b\<rparr>) = publicUser (u\<lparr>ou := a, division := b\<rparr>)"
  "publicUser (rehash_user g u\<lparr>role := r\<rparr>) = publicUser (u\<lparr>role := r\<rparr>)"
  "listed_user (rehash_user g u) = listed_user u"
  "token_for e (rehash_user g u) = token_for e u"
  by (simp_all add: publicUser_def listed_user_def token_for_def)

lemma rehash_User_findById:
  "User_findById e (rehash g d) i
     = map_sum id (map_option (rehash_user g)) (User_findById e d i)"
  by (simp add: User_findById_def find_map_same split: option.splits)

lemma rehash_getCurrentUser:
  "getCurrentUser e (rehash g d) c
     = map_sum id (map_option (rehash_user g)) (getCurrentUser e d c)"
  by (simp add: getCurrentUser_def rehash_User_findById)

lemma rehash_OU [simp]:
  "OU_findById e (rehash g d) i = OU_findById e d i"
  "OU_findOne_division e (rehash g d) i = OU_findOne_division e d i"
  by (simp_all add: OU_findById_def OU_findOne_division_def split: option.splits)

lemma rehash_User_findOne_email:
  "User_findOne_email (rehash g d) em = map_option (rehash_user g) (User_findOne_email d em)"
  by (simp add: User_findOne_email_def find_map_same)

lemma rehash_ensureDivisionAccess:
  "ensureDivisionAccess e (rehash g d) c req
     = map_sum id (map_sum id (rehash_user g)) (ensureDivisionAccess e d c req)"
  by (auto simp: ensureDivisionAccess_def rehash_getCurrentUser Let_def
           split: sum.splits option.splits)

lemma rehash_register: "fst (register e (rehash g d) req) = fst (register e d req)"
  by (simp add: register_def Let_def rehash_User_findOne_email)

lemma rehash_login:
  assumes "\<forall>v. User_findOne_email d (body req ''email'') = Some v \<longrightarrow>
             bcrypt_compare e (body req ''password'') (g v)
               = bcrypt_compare e (body req ''password'') (passwordHash v)"
  shows "fst (login e (rehash g d) req) = fst (login e d req)"
  using assms
  by (cases "User_findOne_email d (body req ''email'')")
     (simp_all add: login_def Let_def rehash_User_findOne_email split: option.splits)

lemma rehash_list_divisions: "fst (list_divisions (rehash g d)) = fst (list_divisions d)"
  by (simp add: list_divisions_def structure_items_def)

lemma rehash_get_credentials:
  "fst (get_credentials e (rehash g d) c req) = fst (get_credentials e d c req)"
  by (simp add: get_credentials_def rehash_ensureDivisionAccess split: sum.splits option.splits)

lemma rehash_post_credentials:
  "fst (post_credentials e (rehash g d) c req) = fst (post_credentials e d c req)"
  by (simp add: post_credentials_def rehash_ensureDivisionAccess Let_def
           split: sum.splits option.splits)

lemma rehash_put_credential:
  "fst (put_credential e (rehash g d) c req) = fst (put_credential e d c req)"
  by (simp add: put_credential_def rehash_getCurrentUser Let_def
           split: sum.splits option.splits)

lemma rehash_get_users: "fst (get_users e (rehash g d) c) = fst (get_users e d c)"
  by (simp add: get_users_def rehash_getCurrentUser split: sum.splits option.splits)

lemma rehash_assign_user:
  "fst (assign_user e (rehash g d) c req) = fst (assign_user e d c req)"
  by (simp add: assign_user_def rehash_getCurrentUser rehash_User_findById Let_def
           split: sum.splits option.splits)

lemma rehash_unassign_user:
  "fst (unassign_user e (rehash g d) c req) = fst (unassign_user e d c req)"
  by (simp add: unassign_user_def rehash_getCurrentUser rehash_User_findById Let_def
           split: sum.splits option.splits)

lemma rehash_change_role:
  "fst (change_role e (rehash g d) c req) = fst (change_role e d c req)"
  by (simp add: change_role_def rehash_getCurrentUser rehash_User_findById Let_def
           split: sum.splits option.splits)

lemma rehash_guarded:
  assumes "\<And>c. fst (h' c) = fst (h c)"
  shows "fst (guarded e (rehash g d) req h') = fst (guarded e d req h)"
  using assms by (simp add: guarded_def split: sum.splits)

lemma rehash_app:
  assumes "rt \<noteq> Login"
  shows "fst (app e (rehash g d) rt req) = fst (app e d rt req)"
proof (cases rt)
  case Register
  then show ?thesis by (simp add: rehash_register)
next
  case Login
  with assms show ?thesis by simp
next
  case DevDivisions
  then show ?thesis by (simp add: rehash_guarded rehash_list_divisions)
next
  case StructureOus
  then show ?thesis by (simp add: rehash_guarded rehash_list_divisions)
next
  case GetCredentials
  then show ?thesis by (simp add: rehash_guarded rehash_get_credentials)
next
  case PostCredentials
  then show ?thesis by (simp add: rehash_guarded rehash_post_credentials)
next
  case PutCredential
  then show ?thesis by (simp add: rehash_guarded rehash_put_credential)
next
  case GetUsers
  then show ?thesis by (simp add: rehash_guarded rehash_get_users)
next
  case AssignUser
  then show ?thesis by (simp add: rehash_guarded rehash_assign_user)
next
  case UnassignUser
  then show ?thesis by (simp add: rehash_guarded rehash_unassign_user)
next
  case ChangeRole
  then show ?thesis by (simp add: rehash_guarded rehash_change_role)
next
  case Health
  then show ?thesis by simp
qed

text \<open>Nor do they depend on the hash function that registration stores the result of.\<close>

lemma other_hash_lookups [simp]:
  "User_findById (e\<lparr>bcrypt_hash := f\<rparr>) d i = User_findById e d i"
  "OU_findById (e\<lparr>bcrypt_hash := f\<rparr>) d i = OU_findById e d i"
  "OU_findOne_division (e\<lparr>bcrypt_hash := f\<rparr>) d i = OU_findOne_division e d i"
  "divisions_id (e\<lparr>bcrypt_hash := f\<rparr>) ds i = divisions_id e ds i"
  "credentials_id (e\<lparr>bcrypt_hash := f\<rparr>) cs i = credentials_id e cs i"
  "token_for (e\<lparr>bcrypt_hash := f\<rparr>) u = token_for e u"
  "authMiddleware (e\<lparr>bcrypt_hash := f\<rparr>) req = authMiddleware e req"
  by (simp_all add: User_findById_def OU_findById_def OU_findOne_division_def divisions_id_def
        credentials_id_def token_for_def authMiddleware_def Let_def split: option.splits)

lemma other_hash_current [simp]:
  "getCurrentUser (e\<lparr>bcrypt_hash := f\<rparr>) d c = getCurrentUser e d c"
  "ensureDivisionAccess (e\<lparr>bcrypt_hash := f\<rparr>) d c req = ensureDivisionAccess e d c req"
  by (simp_all add: getCurrentUser_def ensureDivisionAccess_def split: sum.splits option.splits)

lemma other_hash_app:
  "fst (app (e\<lparr>bcrypt_hash := f\<rparr>) d rt req) = fst (app e d rt req)"
proof (cases rt)
  case Register
  then show ?thesis by (simp add: register_def Let_def publicUser_def token_for_def)
next
  case Login
  then show ?thesis by (simp add: login_def split: option.splits)
next
  case DevDivisions
  then show ?thesis by (simp add: guarded_def split: sum.splits)
next
  case StructureOus
  then show ?thesis by (simp add: guarded_def split: sum.splits)
next
  case GetCredentials
  then show ?thesis by (simp add: guarded_def get_credentials_def Let_def split: sum.splits option.splits)
next
  case PostCredentials
  then show ?thesis by (simp add: guarded_def post_credentials_def Let_def split: sum.splits option.splits)
next
  case PutCredential
  then show ?thesis by (simp add: guarded_def put_credential_def Let_def split: sum.splits option.splits)
next
  case GetUsers
  then show ?thesis by (simp add: guarded_def get_users_def Let_def split: sum.splits option.splits)
next
  case AssignUser
  then show ?thesis by (simp add: guarded_def assign_user_def Let_def split: sum.splits option.splits)
next
  case UnassignUser
  then show ?thesis by (simp add: guarded_def unassign_user_def Let_def split: sum.splits option.splits)
next
  case ChangeRole
  then show ?thesis by (simp add: guarded_def change_role_def Let_def split: sum.splits option.splits)
next
  case Health
  then show ?thesis by simp
qed

text \<open>
  C7. The stored password hash does not reach a response. No response of any route has
  a key \<open>passwordHash\<close> anywhere in its payload; the \<open>user\<close> object answered by
  register, login, assign, unassign and change role is \<open>publicUser\<close> of a user of the
  store after the call, and the \<open>items\<close> of the user list are the listing projection
  of the stored users, both with exactly the keys \<open>id\<close>, \<open>name\<close>, \<open>email\<close>,
  \<open>role\<close>, \<open>ou\<close>, \<open>division\<close>. The whole response, status and payload, of
  every route but login is the same when the stored hash of every user is replaced by
  any other string; the response of login is the same under such a replacement whenever
  \<open>bcrypt.compare\<close> answers the same for the user with the given email; and no
  response changes when the function that computes a new user's hash is replaced.
\<close>

theorem responses_expose_public_projection:
  "''passwordHash'' \<notin> json_keys (payload (fst (app e d rt req)))
   \<and> (rt \<in> {Register, Login, AssignUser, UnassignUser, ChangeRole} \<longrightarrow>
        (\<forall>j. jget ''user'' (payload (fst (app e d rt req))) = Some j \<longrightarrow>
           (\<exists>u \<in> set (users (snd (app e d rt req))). j = publicUser u)))
   \<and> (rt = GetUsers \<longrightarrow>
        (\<forall>j. jget ''items'' (payload (fst (app e d rt req))) = Some j \<longrightarrow>
           j = JArr (map listed_user (users d))))
   \<and> json_keys (publicUser u) = {''id'', ''name'', ''email'', ''role'', ''ou'', ''division''}
   \<and> json_keys (listed_user u) = {''id'', ''name'', ''email'', ''role'', ''ou'', ''division''}
   \<and> (rt \<noteq> Login \<longrightarrow> fst (app e (rehash g d) rt req) = fst (app e d rt req))
   \<and> ((\<forall>v. User_findOne_email d (body req ''email'') = Some v \<longrightarrow>
           bcrypt_compare e (body req ''password'') (g v)
             = bcrypt_compare e (body req ''password'') (passwordHash v)) \<longrightarrow>
        fst (app e (rehash g d) Login req) = fst (app e d Login req))
   \<and> fst (app (e\<lparr>bcrypt_hash := f\<rparr>) d rt req) = fst (app e d rt req)"
proof -
  have a: "rt \<in> {Register, Login, AssignUser, UnassignUser, ChangeRole} \<longrightarrow>
        (\<forall>j. jget ''user'' (payload (fst (app e d rt req))) = Some j \<longrightarrow>
           (\<exists>u \<in> set (users (snd (app e d rt req))). j = publicUser u))"
  proof (intro impI allI)
    fix j
    assume rt: "rt \<in> {Register, Login, AssignUser, UnassignUser, ChangeRole}"
      and j: "jget ''user'' (payload (fst (app e d rt req))) = Some j"
    from rt consider "rt = Register" | "rt = Login" | "rt = AssignUser" | "rt = UnassignUser"
      | "rt = ChangeRole" by auto
    then show "\<exists>u \<in> set (users (snd (app e d rt req))). j = publicUser u"
    proof cases
      case 1
      with j show ?thesis by (simp add: user_field_register)
    next
      case 2
      with j show ?thesis by (simp add: user_field_login)
    next
      case 3
      with j show ?thesis
        using user_field_guarded [of "\<lambda>c. assign_user e d c req" j e d req]
          user_field_assign_user
        by simp
    next
      case 4
      with j show ?thesis
        using user_field_guarded [of "\<lambda>c. unassign_user e d c req" j e d req]
          user_field_unassign_user
        by simp
    next
      case 5
      with j show ?thesis
        using user_field_guarded [of "\<lambda>c. change_role e d c req" j e d req]
          user_field_change_role
        by simp
    qed
  qed
  have b: "rt = GetUsers \<longrightarrow>
        (\<forall>j. jget ''items'' (payload (fst (app e d rt req))) = Some j \<longrightarrow>
           j = JArr (map listed_user (users d)))"
    using items_field_guarded_get_users by simp
  have n: "rt \<noteq> Login \<longrightarrow> fst (app e (rehash g d) rt req) = fst (app e d rt req)"
    using rehash_app by blast
  have l: "(\<forall>v. User_findOne_email d (body req ''email'') = Some v \<longrightarrow>
           bcrypt_compare e (body req ''password'') (g v)
             = bcrypt_compare e (body req ''password'') (passwordHash v)) \<longrightarrow>
        fst (app e (rehash g d) Login req) = fst (app e d Login req)"
    using rehash_login by simp
  show ?thesis
    by (intro conjI no_hash_app a b keys_publicUser keys_listed_user n l other_hash_app)
qed
theorem responses_expose_public_projection_witness:
  "jget ''user'' (payload (fst (app ex_env ex_db Login (ex_req [] [] [] (body_login ''n@x'' ''pw1'')))))
     = Some (publicUser user_normal)
   \<and> publicUser user_normal
        \<in> publicUser ` set (users (snd (app ex_env ex_db Login
                                           (ex_req [] [] [] (body_login ''n@x'' ''pw1'')))))
   \<and> ''passwordHash'' \<notin> json_keys (payload (fst (app ex_env ex_db Login
                                         (ex_req [] [] [] (body_login ''n@x'' ''pw1'')))))
   \<and> jget ''items'' (payload (fst (app ex_env ex_db GetUsers (ex_req ''tokA'' [] [] no_fields))))
       = Some (JArr [listed_user user_normal, listed_user user_manager, listed_user user_admin])
   \<and> map passwordHash (users (rehash (other_hashes ''n@x'') ex_db))
       = [''h:pw1'', ''h:changed'', ''h:changed'']
   \<and> fst (app ex_env (rehash (other_hashes ''n@x'') ex_db) Login
             (ex_req [] [] [] (body_login ''n@x'' ''pw1'')))
       = fst (app ex_env ex_db Login (ex_req [] [] [] (body_login ''n@x'' ''pw1'')))
   \<and> fst (app ex_env (rehash (other_hashes ''n@x'') ex_db) GetUsers
             (ex_req ''tokA'' [] [] no_fields))
       = fst (app ex_env ex_db GetUsers (ex_req ''tokA'' [] [] no_fields))"
proof -
  let ?req = "ex_req [] [] [] (body_login ''n@x'' ''pw1'')"
  let ?g = "other_hashes ''n@x''"
  have found: "User_findOne_email ex_db (Some ''n@x'') = Some user_normal"
    by (simp add: User_findOne_email_def ex_db_def user_normal_def)
  have cmp: "bcrypt_compare ex_env (Some ''pw1'') (passwordHash user_normal) = Some True"
    by (simp add: ex_env_def ex_compare_def ex_hash_def user_normal_def)
  have run: "jget ''user'' (payload (fst (app ex_env ex_db Login ?req))) = Some (publicUser user_normal)"
    by (simp add: login_def body_login_def found cmp)
  have items: "jget ''items'' (payload (fst (app ex_env ex_db GetUsers (ex_req ''tokA'' [] [] no_fields))))
                 = Some (JArr (map listed_user (users ex_db)))"
    by (simp add: guarded_def ex_auth get_users_def ex_current ex_users)
  have hashes: "map passwordHash (users (rehash ?g ex_db)) = [''h:pw1'', ''h:changed'', ''h:changed'']"
    by (simp add: rehash_def rehash_user_def other_hashes_def ex_db_def user_normal_def
          user_manager_def user_admin_def)
  have same: "\<forall>v. User_findOne_email ex_db (body ?req ''email'') = Some v \<longrightarrow>
           bcrypt_compare ex_env (body ?req ''password'') (?g v)
             = bcrypt_compare ex_env (body ?req ''password'') (passwordHash v)"
    by (simp add: body_login_def found other_hashes_def user_normal_def)
  note rule = responses_expose_public_projection [where e = ex_env and d = ex_db and g = ?g]
  from rule [where rt = Login and req = ?req, THEN conjunct2, THEN conjunct1] run
  have a0: "\<exists>u \<in> set (users (snd (app ex_env ex_db Login ?req))).
              publicUser user_normal = publicUser u"
    by (simp del: app.simps)
  then have a: "publicUser user_normal
                  \<in> publicUser ` set (users (snd (app ex_env ex_db Login ?req)))"
    by blast
  have b: "''passwordHash'' \<notin> json_keys (payload (fst (app ex_env ex_db Login ?req)))"
    by (rule rule [where rt = Login and req = ?req, THEN conjunct1])
  from rule [where rt = GetUsers and req = "ex_req ''tokA'' [] [] no_fields",
             THEN conjunct2, THEN conjunct2, THEN conjunct1] items
  have c: "jget ''items'' (payload (fst (app ex_env ex_db GetUsers (ex_req ''tokA'' [] [] no_fields))))
       = Some (JArr [listed_user user_normal, listed_user user_manager, listed_user user_admin])"
    by (simp add: ex_db_def del: app.simps)
  from rule [where rt = Login and req = ?req, THEN conjunct2, THEN conjunct2, THEN conjunct2,
             THEN conjunct2, THEN conjunct2, THEN conjunct2, THEN conjunct1] same
  have l: "fst (app ex_env (rehash ?g ex_db) Login ?req) = fst (app ex_env ex_db Login ?req)"
    by blast
  from rule [where rt = GetUsers and req = "ex_req ''tokA'' [] [] no_fields",
             THEN conjunct2, THEN conjunct2, THEN conjunct2, THEN conjunct2, THEN conjunct2,
             THEN conjunct1]
  have n: "fst (app ex_env (rehash ?g ex_db) GetUsers (ex_req ''tokA'' [] [] no_fields))
       = fst (app ex_env ex_db GetUsers (ex_req ''tokA'' [] [] no_fields))"
    by simp
  show ?thesis
    by (intro conjI run a b c hashes l n)
qed

end
